theory Spec2Isabelle
  imports Complex_Main
begin

section \<open>Data model of the stock ledger (firebase\_utils.py)\<close>

text \<open>
  The documents are Python dictionaries read from and written to the document store.
  Each kind of document is a record whose fields are optional where the code reads them
  with \<^verbatim>\<open>.get\<close> (the value \<open>None\<close> is an absent key) and mandatory where the
  code indexes them (\<^verbatim>\<open>ing['id']\<close>, \<^verbatim>\<open>ing['quantity']\<close>). Quantities and
  thresholds are integers, prices are exact real numbers (the rounding of Python's
  floats is not modelled), a timestamp is a natural number supplied by the caller of
  each operation in place of \<^verbatim>\<open>datetime.now(timezone.utc)\<close>.
\<close>

type_synonym time = nat

record item =
  it_name :: "string option"
  it_quantity :: "int option"
  it_sale_price :: "real option"
  it_purchase_price :: "real option"
  it_min_stock_alert :: "int option"
  it_updated_at :: "string option"

record hentry =
  h_timestamp :: time
  h_type :: string
  h_quantity_change :: "int option"
  h_details :: string

record lineitem =
  li_id :: string
  li_name :: "string option"
  li_quantity :: int
  li_sale_price :: "real option"
  li_purchase_price :: "real option"

record order =
  ord_title :: "string option"
  ord_price :: "real option"
  ord_ingredients :: "lineitem list option"
  ord_status :: "string option"
  ord_timestamp :: "time option"
  ord_completed_at :: "time option"
  ord_payment_method :: "string option"
  ord_customer_name :: "string option"
  ord_is_direct_sale :: "bool option"

record payment =
  pay_method :: "string option"
  pay_customer :: "string option"

text \<open>
  The store: the \<^verbatim>\<open>inventory\<close> collection, the \<^verbatim>\<open>history\<close> sub-collection
  of every inventory document (it exists independently of its parent document; its
  documents have generated ids and are kept in the order in which they were added), and
  the \<^verbatim>\<open>orders\<close> collection.
\<close>

record store =
  inventory :: "string \<rightharpoonup> item"
  history :: "string \<Rightarrow> hentry list"
  orders :: "string \<rightharpoonup> order"

text \<open>
  The exceptions raised inside the two transactions, with the data their messages are
  formatted from, and the error of a commit that updates a missing document.
\<close>

datatype exn =
    Order_missing \<comment> \<open>\<^verbatim>\<open>La venta/pedido no existe.\<close>\<close>
  | Product_gone "string option" \<comment> \<open>\<^verbatim>\<open>Producto '{name}' ya no existe en inventario.\<close>\<close>
  | Insufficient_stock "string option" int
      \<comment> \<open>\<^verbatim>\<open>Stock insuficiente para '{name}'. Disponible: {current_quantity}\<close>\<close>
  | Product_not_found "string option" \<comment> \<open>\<^verbatim>\<open>Producto '{name}' no encontrado en BD.\<close>\<close>
  | Insufficient_stock_sale "string option" \<comment> \<open>\<^verbatim>\<open>Stock insuficiente para '{name}'.\<close>\<close>
  | Commit_not_found string

datatype message =
    Sale_completed "string option" \<comment> \<open>\<^verbatim>\<open>Venta '{title}' finalizada correctamente.\<close>\<close>
  | Sale_registered real \<comment> \<open>\<^verbatim>\<open>Venta registrada. Total: ${total_price:,.2f}\<close>\<close>
  | Transaction_error exn \<comment> \<open>\<^verbatim>\<open>Error transaccion: {str(e)}\<close>\<close>
  | Sale_error exn \<comment> \<open>\<^verbatim>\<open>Error al procesar venta: {str(e)}\<close>\<close>

datatype alert =
    Low_stock_order "string option" int int
      \<comment> \<open>\<^verbatim>\<open>'{name}' ha alcanzado el umbral de stock minimo ({new_quantity}/{min_stock_alert}).\<close>\<close>
  | Low_stock_sale "string option" int int
      \<comment> \<open>\<^verbatim>\<open>'{name}' bajo stock ({new_quantity}/{min_stock_alert}).\<close>\<close>

type_synonym result = "bool \<times> message \<times> alert list"

section \<open>Transactions\<close>

text \<open>
  A transaction reads from the store as it is when the transaction starts and stages its
  writes; the commit applies them in order, all or none. Two writes to one document are
  applied one after the other, so the later one decides a field that both write. An
  update of a document that does not exist makes the commit fail.
\<close>

datatype staged_write =
    Update_quantity string int \<comment> \<open>\<^verbatim>\<open>transaction.update(item_ref, {'quantity': q})\<close>\<close>
  | Set_history string hentry \<comment> \<open>\<^verbatim>\<open>transaction.set(item_ref.collection('history').document(), h)\<close>\<close>
  | Update_order_completed string time
      \<comment> \<open>\<^verbatim>\<open>transaction.update(order_ref, {'status': 'completed', 'completed_at': t})\<close>\<close>
  | Set_order string order \<comment> \<open>\<^verbatim>\<open>transaction.set(order_ref, order_data)\<close>\<close>

fun apply_write :: "store \<Rightarrow> staged_write \<Rightarrow> exn + store" where
  "apply_write s (Update_quantity i q) =
     (case inventory s i of
        None \<Rightarrow> Inl (Commit_not_found i)
      | Some d \<Rightarrow> Inr (s\<lparr>inventory := (inventory s)(i \<mapsto> d\<lparr>it_quantity := Some q\<rparr>)\<rparr>))"
| "apply_write s (Set_history i h) =
     Inr (s\<lparr>history := (history s)(i := history s i @ [h])\<rparr>)"
| "apply_write s (Update_order_completed oid t) =
     (case orders s oid of
        None \<Rightarrow> Inl (Commit_not_found oid)
      | Some od \<Rightarrow>
          Inr (s\<lparr>orders := (orders s)(oid \<mapsto>
                 od\<lparr>ord_status := Some ''completed'', ord_completed_at := Some t\<rparr>)\<rparr>))"
| "apply_write s (Set_order oid od) = Inr (s\<lparr>orders := (orders s)(oid \<mapsto> od)\<rparr>)"

fun commit :: "store \<Rightarrow> staged_write list \<Rightarrow> exn + store" where
  "commit s [] = Inr s"
| "commit s (w # ws) =
     (case apply_write s w of Inl e \<Rightarrow> Inl e | Inr s' \<Rightarrow> commit s' ws)"

text \<open>
  \<^verbatim>\<open>@firestore.transactional\<close>: an exception of the body, or of the commit, leaves the
  store as it was and is raised to the caller; otherwise the staged writes are committed
  and the body's value is returned. (One caller only: no conflict, no retry of the body.)
\<close>

definition transactional :: "store \<Rightarrow> exn + (staged_write list \<times> 'a) \<Rightarrow> store \<times> (exn + 'a)" where
  "transactional s body =
     (case body of
        Inl e \<Rightarrow> (s, Inl e)
      | Inr (ws, r) \<Rightarrow>
          (case commit s ws of Inl e \<Rightarrow> (s, Inl e) | Inr s' \<Rightarrow> (s', Inr r)))"

subsection \<open>Completing an order\<close>

record item_update =
  u_ref :: string
  u_new_quantity :: int
  u_item_data :: item
  u_quantity :: int

text \<open>\<^verbatim>\<open>item_data.get('quantity', 0)\<close>\<close>

definition current_quantity :: "item \<Rightarrow> int" where
  "current_quantity item_data = (case it_quantity item_data of None \<Rightarrow> 0 | Some q \<Rightarrow> q)"

text \<open>
  The first loop of \<^verbatim>\<open>_complete_order_atomic\<close>: every ingredient is read and
  checked, the first failure raises; \<open>items_to_update\<close> is the accumulator.
\<close>

fun verify_stock :: "store \<Rightarrow> lineitem list \<Rightarrow> item_update list \<Rightarrow> exn + item_update list" where
  "verify_stock s [] items_to_update = Inr items_to_update"
| "verify_stock s (ing # ings) items_to_update =
     (case inventory s (li_id ing) of
        None \<Rightarrow> Inl (Product_gone (li_name ing))
      | Some item_data \<Rightarrow>
          if current_quantity item_data < li_quantity ing
          then Inl (Insufficient_stock (li_name ing) (current_quantity item_data))
          else verify_stock s ings
                 (items_to_update @
                  [\<lparr>u_ref = li_id ing,
                    u_new_quantity = current_quantity item_data - li_quantity ing,
                    u_item_data = item_data,
                    u_quantity = li_quantity ing\<rparr>]))"

text \<open>
  The second loop: the writes staged and the alerts collected, in order. The test
  \<^verbatim>\<open>if min_stock_alert and 0 < new_quantity <= min_stock_alert\<close> is false for an
  absent threshold (\<open>None\<close>) and for the threshold 0, both falsy in Python.
\<close>

fun order_updates :: "time \<Rightarrow> string \<Rightarrow> item_update list \<Rightarrow> staged_write list \<Rightarrow> alert list
    \<Rightarrow> staged_write list \<times> alert list" where
  "order_updates now order_id [] ws low_stock_alerts = (ws, low_stock_alerts)"
| "order_updates now order_id (item_update # us) ws low_stock_alerts =
     order_updates now order_id us
       (ws @
        [Update_quantity (u_ref item_update) (u_new_quantity item_update),
         Set_history (u_ref item_update)
           \<lparr>h_timestamp = now, h_type = ''Venta Completada'',
            h_quantity_change = Some (- u_quantity item_update),
            h_details = ''Venta ID: '' @ order_id\<rparr>])
       (low_stock_alerts @
        (case it_min_stock_alert (u_item_data item_update) of
           None \<Rightarrow> []
         | Some min_stock_alert \<Rightarrow>
             if min_stock_alert \<noteq> 0 \<and> 0 < u_new_quantity item_update
                \<and> u_new_quantity item_update \<le> min_stock_alert
             then [Low_stock_order (it_name (u_item_data item_update))
                     (u_new_quantity item_update) min_stock_alert]
             else []))"

text \<open>The line items of an order document: \<^verbatim>\<open>order_data.get('ingredients', [])\<close>.\<close>

definition order_lines :: "order \<Rightarrow> lineitem list" where
  "order_lines order_data = (case ord_ingredients order_data of None \<Rightarrow> [] | Some ings \<Rightarrow> ings)"

definition complete_order_atomic :: "time \<Rightarrow> store \<Rightarrow> string \<Rightarrow> exn + (staged_write list \<times> result)" where
  "complete_order_atomic now s order_id =
     (case orders s order_id of
        None \<Rightarrow> Inl Order_missing
      | Some order_data \<Rightarrow>
          (case verify_stock s (order_lines order_data) [] of
             Inl e \<Rightarrow> Inl e
           | Inr items_to_update \<Rightarrow>
               (case order_updates now order_id items_to_update [] [] of
                  (ws, low_stock_alerts) \<Rightarrow>
                    Inr (ws @ [Update_order_completed order_id now],
                         (True, Sale_completed (ord_title order_data), low_stock_alerts)))))"

text \<open>\<^verbatim>\<open>FirebaseManager.complete_order\<close>: any exception becomes a failure result.\<close>

definition complete_order :: "time \<Rightarrow> store \<Rightarrow> string \<Rightarrow> store \<times> result" where
  "complete_order now s order_id =
     (case transactional s (complete_order_atomic now s order_id) of
        (s', Inl e) \<Rightarrow> (s', (False, Transaction_error e, []))
      | (s', Inr r) \<Rightarrow> (s', r))"

subsection \<open>A direct sale\<close>

text \<open>
  The first loop of \<^verbatim>\<open>_process_direct_sale_atomic\<close>, with its three accumulators
  \<open>items_to_update\<close>, \<open>enriched_ingredients\<close> and \<open>total_price\<close>.
\<close>

fun verify_sale :: "store \<Rightarrow> lineitem list \<Rightarrow> item_update list \<Rightarrow> lineitem list \<Rightarrow> real
    \<Rightarrow> exn + (item_update list \<times> lineitem list \<times> real)" where
  "verify_sale s [] items_to_update enriched_ingredients total_price =
     Inr (items_to_update, enriched_ingredients, total_price)"
| "verify_sale s (sold_item # sold) items_to_update enriched_ingredients total_price =
     (case inventory s (li_id sold_item) of
        None \<Rightarrow> Inl (Product_not_found (li_name sold_item))
      | Some item_data \<Rightarrow>
          if current_quantity item_data < li_quantity sold_item
          then Inl (Insufficient_stock_sale (li_name sold_item))
          else
            (let sale_price = (case it_sale_price item_data of None \<Rightarrow> 0 | Some p \<Rightarrow> p);
                 purchase_price = (case it_purchase_price item_data of None \<Rightarrow> 0 | Some p \<Rightarrow> p);
                 line_total = sale_price * real_of_int (li_quantity sold_item)
             in verify_sale s sold
                  (items_to_update @
                   [\<lparr>u_ref = li_id sold_item,
                     u_new_quantity = current_quantity item_data - li_quantity sold_item,
                     u_item_data = item_data,
                     u_quantity = li_quantity sold_item\<rparr>])
                  (enriched_ingredients @
                   [\<lparr>li_id = li_id sold_item,
                     li_name = it_name item_data,
                     li_quantity = li_quantity sold_item,
                     li_sale_price = Some sale_price,
                     li_purchase_price = Some purchase_price\<rparr>])
                  (total_price + line_total)))"

fun sale_updates :: "time \<Rightarrow> string \<Rightarrow> item_update list \<Rightarrow> staged_write list \<Rightarrow> alert list
    \<Rightarrow> staged_write list \<times> alert list" where
  "sale_updates now sale_id [] ws low_stock_alerts = (ws, low_stock_alerts)"
| "sale_updates now sale_id (item_update # us) ws low_stock_alerts =
     sale_updates now sale_id us
       (ws @
        [Update_quantity (u_ref item_update) (u_new_quantity item_update),
         Set_history (u_ref item_update)
           \<lparr>h_timestamp = now, h_type = ''Venta Directa'',
            h_quantity_change = Some (- u_quantity item_update),
            h_details = ''ID Venta: '' @ sale_id\<rparr>])
       (low_stock_alerts @
        (case it_min_stock_alert (u_item_data item_update) of
           None \<Rightarrow> []
         | Some min_stock_alert \<Rightarrow>
             if min_stock_alert \<noteq> 0 \<and> 0 < u_new_quantity item_update
                \<and> u_new_quantity item_update \<le> min_stock_alert
             then [Low_stock_sale (it_name (u_item_data item_update))
                     (u_new_quantity item_update) min_stock_alert]
             else []))"

text \<open>\<^verbatim>\<open>sale_id.split('-')[-1]\<close>: what follows the last hyphen.\<close>

definition last_segment :: "string \<Rightarrow> string" where
  "last_segment sale_id = rev (takeWhile (\<lambda>c. c \<noteq> CHR ''-'') (rev sale_id))"

definition process_direct_sale_atomic :: "time \<Rightarrow> store \<Rightarrow> lineitem list \<Rightarrow> string \<Rightarrow> payment
    \<Rightarrow> exn + (staged_write list \<times> result)" where
  "process_direct_sale_atomic now s items_sold sale_id payment_data =
     (case verify_sale s items_sold [] [] 0 of
        Inl e \<Rightarrow> Inl e
      | Inr (items_to_update, enriched_ingredients, total_price) \<Rightarrow>
          (case sale_updates now sale_id items_to_update [] [] of
             (ws, low_stock_alerts) \<Rightarrow>
               Inr (ws @
                    [Set_order sale_id
                       \<lparr>ord_title = Some (''Venta Directa '' @ last_segment sale_id),
                        ord_price = Some total_price,
                        ord_ingredients = Some enriched_ingredients,
                        ord_status = Some ''completed'',
                        ord_timestamp = Some now,
                        ord_completed_at = Some now,
                        ord_payment_method =
                          Some (case pay_method payment_data of
                                  None \<Rightarrow> ''efectivo'' | Some m \<Rightarrow> m),
                        ord_customer_name =
                          Some (case pay_customer payment_data of
                                  None \<Rightarrow> ''Cliente General'' | Some c \<Rightarrow> c),
                        ord_is_direct_sale = Some True\<rparr>],
                    (True, Sale_registered total_price, low_stock_alerts))))"

definition process_direct_sale :: "time \<Rightarrow> store \<Rightarrow> lineitem list \<Rightarrow> string \<Rightarrow> payment option
    \<Rightarrow> store \<times> result" where
  "process_direct_sale now s items_sold sale_id payment_data =
     (let payment_data' =
            (case payment_data of
               None \<Rightarrow> \<lparr>pay_method = Some ''efectivo'', pay_customer = Some ''Cliente General''\<rparr>
             | Some p \<Rightarrow> p)
      in case transactional s
                (process_direct_sale_atomic now s items_sold sale_id payment_data') of
           (s', Inl e) \<Rightarrow> (s', (False, Sale_error e, []))
         | (s', Inr r) \<Rightarrow> (s', r))"

section \<open>The retry wrapper\<close>

text \<open>
  \<^verbatim>\<open>firestore_retry(func)\<close>. The wrapped operation acts on a state and either returns
  a value or raises; the wrapper's result carries the delays slept, in order. After the
  loop the wrapper executes a bare \<^verbatim>\<open>raise\<close> outside of any \<^verbatim>\<open>except\<close> block:
  at that point no exception is being handled, and Python raises
  \<^verbatim>\<open>RuntimeError('No active exception to reraise')\<close>. The lines written to the
  logger are left out.
\<close>

datatype 'e raised = Raised 'e | RuntimeError_no_active_exception

fun retry_loop :: "('s \<Rightarrow> ('e + 'a) \<times> 's) \<Rightarrow> nat \<Rightarrow> nat \<Rightarrow> 's \<Rightarrow> nat list
    \<Rightarrow> ('e raised + 'a) \<times> 's \<times> nat list" where
  "retry_loop func 0 delay s slept = (Inl RuntimeError_no_active_exception, s, slept)"
| "retry_loop func (Suc remaining) delay s slept =
     (case func s of
        (Inr v, s') \<Rightarrow> (Inr v, s', slept)
      | (Inl e, s') \<Rightarrow> retry_loop func remaining (delay * 2) s' (slept @ [delay]))"

definition firestore_retry :: "('s \<Rightarrow> ('e + 'a) \<times> 's) \<Rightarrow> 's \<Rightarrow> ('e raised + 'a) \<times> 's \<times> nat list" where
  "firestore_retry func s = (let max_retries = 3; delay = 1 in retry_loop func max_retries delay s [])"

section \<open>The inventory repository\<close>

text \<open>\<^verbatim>\<open>doc_ref.set(data, merge=True)\<close>: the keys of \<open>data\<close> overwrite, the others stay.\<close>

definition merge_field :: "'a option \<Rightarrow> 'a option \<Rightarrow> 'a option" where
  "merge_field old new = (case new of None \<Rightarrow> old | Some v \<Rightarrow> Some v)"

definition set_merge :: "item option \<Rightarrow> item \<Rightarrow> item" where
  "set_merge doc data =
     (case doc of
        None \<Rightarrow> data
      | Some old \<Rightarrow>
          \<lparr>it_name = merge_field (it_name old) (it_name data),
           it_quantity = merge_field (it_quantity old) (it_quantity data),
           it_sale_price = merge_field (it_sale_price old) (it_sale_price data),
           it_purchase_price = merge_field (it_purchase_price old) (it_purchase_price data),
           it_min_stock_alert = merge_field (it_min_stock_alert old) (it_min_stock_alert data),
           it_updated_at = merge_field (it_updated_at old) (it_updated_at data)\<rparr>)"

text \<open>The body of \<^verbatim>\<open>save_inventory_item\<close>; \<^verbatim>\<open>details or (...)\<close> replaces an absent or empty text.\<close>

definition save_item_body :: "time \<Rightarrow> item \<Rightarrow> string \<Rightarrow> bool \<Rightarrow> string option \<Rightarrow> store \<Rightarrow> store" where
  "save_item_body now data custom_id is_new details s =
     (let s1 = s\<lparr>inventory := (inventory s)(custom_id \<mapsto> set_merge (inventory s custom_id) data)\<rparr>;
          history_type = (if is_new then ''Stock Inicial'' else ''Ajuste Manual'');
          details' =
            (case details of
               None \<Rightarrow> (if is_new then ''Item creado en el sistema.''
                         else ''Item actualizado manualmente.'')
             | Some d \<Rightarrow>
                 if d = [] then (if is_new then ''Item creado en el sistema.''
                                 else ''Item actualizado manualmente.'')
                 else d);
          history_data =
            \<lparr>h_timestamp = now, h_type = history_type,
             h_quantity_change = it_quantity data, h_details = details'\<rparr>
      in s1\<lparr>history := (history s1)(custom_id := history s1 custom_id @ [history_data])\<rparr>)"

text \<open>
  \<^verbatim>\<open>@firestore_retry def save_inventory_item\<close>. The store of this model does not
  fail, so the body returns at its first attempt.
\<close>

definition save_inventory_item :: "time \<Rightarrow> store \<Rightarrow> item \<Rightarrow> string \<Rightarrow> bool \<Rightarrow> string option
    \<Rightarrow> (unit raised + unit) \<times> store \<times> nat list" where
  "save_inventory_item now s data custom_id is_new details =
     firestore_retry
       (\<lambda>s. (Inr (), save_item_body now data custom_id is_new details s)) s"

subsection \<open>Deleting an item\<close>








section \<open>Vocabulary of the properties\<close>

text \<open>
  A line item passes the check of the first loop when its inventory document exists and
  its quantity there is not below the requested one.
\<close>

definition stock_ok :: "store \<Rightarrow> lineitem \<Rightarrow> bool" where
  "stock_ok s l =
     (case inventory s (li_id l) of
        None \<Rightarrow> False
      | Some d \<Rightarrow> \<not> current_quantity d < li_quantity l)"

text \<open>The quantity of an item in the store, 0 when the document or the field is absent.\<close>

definition quantity_of :: "store \<Rightarrow> string \<Rightarrow> int" where
  "quantity_of s i = (case inventory s i of None \<Rightarrow> 0 | Some d \<Rightarrow> current_quantity d)"

text \<open>The line items of a list that name item \<open>i\<close>, in order.\<close>

definition lines_of :: "string \<Rightarrow> lineitem list \<Rightarrow> lineitem list" where
  "lines_of i ls = filter (\<lambda>l. li_id l = i) ls"

text \<open>The exception of a line item that fails its check, in each of the two transactions.\<close>

definition order_line_error :: "store \<Rightarrow> lineitem \<Rightarrow> exn" where
  "order_line_error s l =
     (case inventory s (li_id l) of
        None \<Rightarrow> Product_gone (li_name l)
      | Some d \<Rightarrow> Insufficient_stock (li_name l) (current_quantity d))"

definition sale_line_error :: "store \<Rightarrow> lineitem \<Rightarrow> exn" where
  "sale_line_error s l =
     (case inventory s (li_id l) of
        None \<Rightarrow> Product_not_found (li_name l)
      | Some d \<Rightarrow> Insufficient_stock_sale (li_name l))"

text \<open>The history entries the two transactions write for a line item.\<close>

definition order_entry :: "time \<Rightarrow> string \<Rightarrow> lineitem \<Rightarrow> hentry" where
  "order_entry now order_id l =
     \<lparr>h_timestamp = now, h_type = ''Venta Completada'',
      h_quantity_change = Some (- li_quantity l), h_details = ''Venta ID: '' @ order_id\<rparr>"

definition sale_entry :: "time \<Rightarrow> string \<Rightarrow> lineitem \<Rightarrow> hentry" where
  "sale_entry now sale_id l =
     \<lparr>h_timestamp = now, h_type = ''Venta Directa'',
      h_quantity_change = Some (- li_quantity l), h_details = ''ID Venta: '' @ sale_id\<rparr>"

text \<open>
  The inventory after a successful transaction over the line items \<open>ls\<close>: an item named by
  no line item is untouched, any other has its quantity replaced by the snapshot quantity
  minus the quantity of the last line item naming it.
\<close>

definition inventory_after :: "store \<Rightarrow> lineitem list \<Rightarrow> string \<Rightarrow> item option" where
  "inventory_after s ls i =
     (case inventory s i of
        None \<Rightarrow> None
      | Some d \<Rightarrow>
          if lines_of i ls = [] then Some d
          else Some (d\<lparr>it_quantity :=
                 Some (current_quantity d - li_quantity (last (lines_of i ls)))\<rparr>))"

text \<open>The sum of the quantity changes of a list of history entries; a null change counts 0.\<close>

definition change_sum :: "hentry list \<Rightarrow> int" where
  "change_sum hs = sum_list (map (\<lambda>h. case h_quantity_change h of None \<Rightarrow> 0 | Some q \<Rightarrow> q) hs)"

text \<open>The store's prices of an item: \<^verbatim>\<open>item_data.get('sale_price', 0.0)\<close>.\<close>

definition store_sale_price :: "store \<Rightarrow> string \<Rightarrow> real" where
  "store_sale_price s i =
     (case inventory s i of
        None \<Rightarrow> 0
      | Some d \<Rightarrow> (case it_sale_price d of None \<Rightarrow> 0 | Some p \<Rightarrow> p))"

definition store_purchase_price :: "store \<Rightarrow> string \<Rightarrow> real" where
  "store_purchase_price s i =
     (case inventory s i of
        None \<Rightarrow> 0
      | Some d \<Rightarrow> (case it_purchase_price d of None \<Rightarrow> 0 | Some p \<Rightarrow> p))"

text \<open>The name and the alert threshold of an item in the store; an unset threshold is 0.\<close>

definition name_of :: "store \<Rightarrow> string \<Rightarrow> string option" where
  "name_of s i = (case inventory s i of None \<Rightarrow> None | Some d \<Rightarrow> it_name d)"

definition min_stock_alert_of :: "store \<Rightarrow> string \<Rightarrow> int" where
  "min_stock_alert_of s i =
     (case inventory s i of
        None \<Rightarrow> 0
      | Some d \<Rightarrow> (case it_min_stock_alert d of None \<Rightarrow> 0 | Some m \<Rightarrow> m))"

text \<open>
  The alert rule in the words of the specification: an alert fires iff
  \<open>0 < newQuantity \<le> minStockAlert\<close> and \<open>minStockAlert > 0\<close>.
\<close>

definition low_stock :: "int \<Rightarrow> int \<Rightarrow> bool" where
  "low_stock new_quantity min_stock_alert =
     (0 < new_quantity \<and> new_quantity \<le> min_stock_alert \<and> 0 < min_stock_alert)"

text \<open>The quantity a line item leaves, computed from the snapshot.\<close>

definition new_quantity_of :: "store \<Rightarrow> lineitem \<Rightarrow> int" where
  "new_quantity_of s l = quantity_of s (li_id l) - li_quantity l"

text \<open>The line item a direct sale persists for an input line item.\<close>

definition persisted_line :: "store \<Rightarrow> lineitem \<Rightarrow> lineitem" where
  "persisted_line s l =
     \<lparr>li_id = li_id l, li_name = name_of s (li_id l), li_quantity = li_quantity l,
      li_sale_price = Some (store_sale_price s (li_id l)),
      li_purchase_price = Some (store_purchase_price s (li_id l))\<rparr>"

text \<open>
  What the first loop plans for a line item that passes (its inventory document exists).
\<close>

definition planned :: "store \<Rightarrow> lineitem \<Rightarrow> item_update" where
  "planned s l =
     \<lparr>u_ref = li_id l,
      u_new_quantity = quantity_of s (li_id l) - li_quantity l,
      u_item_data = the (inventory s (li_id l)),
      u_quantity = li_quantity l\<rparr>"

text \<open>The writes staged for a list of planned updates, given the history entry of each.\<close>

definition item_writes :: "(item_update \<Rightarrow> hentry) \<Rightarrow> item_update list \<Rightarrow> staged_write list" where
  "item_writes mk us =
     concat (map (\<lambda>u. [Update_quantity (u_ref u) (u_new_quantity u), Set_history (u_ref u) (mk u)]) us)"

text \<open>The total of a sale at the store's prices.\<close>

definition sale_total :: "store \<Rightarrow> lineitem list \<Rightarrow> real" where
  "sale_total s items = (\<Sum>l\<leftarrow>items. store_sale_price s (li_id l) * real_of_int (li_quantity l))"

text \<open>The writes of a transaction that touch an order document.\<close>

fun is_order_write :: "staged_write \<Rightarrow> bool" where
  "is_order_write (Update_order_completed _ _) = True"
| "is_order_write (Set_order _ _) = True"
| "is_order_write _ = False"

section \<open>Building blocks of concrete inputs\<close>

definition empty_store :: store where
  "empty_store = \<lparr>inventory = Map.empty, history = (\<lambda>_. []), orders = Map.empty\<rparr>"

definition blank_item :: item where
  "blank_item =
     \<lparr>it_name = None, it_quantity = None, it_sale_price = None, it_purchase_price = None,
      it_min_stock_alert = None, it_updated_at = None\<rparr>"

text \<open>An inventory document with a name and a quantity, and one with prices as well.\<close>

definition stocked :: "string \<Rightarrow> int \<Rightarrow> item" where
  "stocked n q = blank_item\<lparr>it_name := Some n, it_quantity := Some q\<rparr>"

definition priced :: "string \<Rightarrow> int \<Rightarrow> real \<Rightarrow> real \<Rightarrow> item" where
  "priced n q sale purchase =
     blank_item\<lparr>it_name := Some n, it_quantity := Some q, it_sale_price := Some sale,
       it_purchase_price := Some purchase\<rparr>"

text \<open>A line item that requests \<open>q\<close> of item \<open>i\<close>, without prices attached.\<close>

definition line :: "string \<Rightarrow> int \<Rightarrow> lineitem" where
  "line i q =
     \<lparr>li_id = i, li_name = Some i, li_quantity = q, li_sale_price = None,
      li_purchase_price = None\<rparr>"

text \<open>An order document with the given line items and status.\<close>

definition order_of :: "lineitem list \<Rightarrow> string \<Rightarrow> order" where
  "order_of ls st =
     \<lparr>ord_title = None, ord_price = None, ord_ingredients = Some ls, ord_status = Some st,
      ord_timestamp = None, ord_completed_at = None, ord_payment_method = None,
      ord_customer_name = None, ord_is_direct_sale = None\<rparr>"

section \<open>Sequences of operations\<close>

text \<open>
  The three operations that write quantities and history entries, each run at a time of
  its own; \<open>perform\<close> gives the store an operation leaves, whatever it returns.
\<close>

datatype operation =
    SaveItem item string bool "string option"
  | CompleteOrder string
  | ProcessDirectSale "lineitem list" string "payment option"

fun perform :: "time \<Rightarrow> store \<Rightarrow> operation \<Rightarrow> store" where
  "perform now s (SaveItem data custom_id is_new details) =
     fst (snd (save_inventory_item now s data custom_id is_new details))"
| "perform now s (CompleteOrder order_id) = fst (complete_order now s order_id)"
| "perform now s (ProcessDirectSale items_sold sale_id payment_data) =
     fst (process_direct_sale now s items_sold sale_id payment_data)"

fun run_all :: "store \<Rightarrow> (time \<times> operation) list \<Rightarrow> store" where
  "run_all s [] = s"
| "run_all s ((now, operation) # rest) = run_all (perform now s operation) rest"

text \<open>
  The operations that keep history and quantity in step: a save that carries no quantity
  or meets the quantity 0, and a completion or a sale none of whose items is named by two
  line items.
\<close>

fun in_step :: "store \<Rightarrow> operation \<Rightarrow> bool" where
  "in_step s (SaveItem data custom_id is_new details) =
     (it_quantity data = None \<or> quantity_of s custom_id = 0)"
| "in_step s (CompleteOrder order_id) =
     (case orders s order_id of
        None \<Rightarrow> True
      | Some order_data \<Rightarrow> distinct (map li_id (order_lines order_data)))"
| "in_step s (ProcessDirectSale items_sold sale_id payment_data) =
     distinct (map li_id items_sold)"

fun all_in_step :: "store \<Rightarrow> (time \<times> operation) list \<Rightarrow> bool" where
  "all_in_step s [] = True"
| "all_in_step s ((now, operation) # rest) =
     (in_step s operation \<and> all_in_step (perform now s operation) rest)"

text \<open>The value a merge leaves in a field, given the field of the old document if any.\<close>

definition merged :: "(item \<Rightarrow> 'a option) \<Rightarrow> item option \<Rightarrow> item \<Rightarrow> 'a option" where
  "merged field doc data =
     (if field data \<noteq> None then field data
      else (case doc of None \<Rightarrow> None | Some old \<Rightarrow> field old))"

section \<open>The two transactions: what a call commits\<close>

lemma verify_stock_ok:
  "\<forall>l\<in>set ings. stock_ok s l \<Longrightarrow> verify_stock s ings acc = Inr (acc @ map (planned s) ings)"
  by (induction ings arbitrary: acc)
     (auto simp: stock_ok_def planned_def quantity_of_def split: option.splits)

lemma verify_stock_fail:
  "find (\<lambda>l. \<not> stock_ok s l) ings = Some bad \<Longrightarrow>
   verify_stock s ings acc = Inl (order_line_error s bad)"
  by (induction ings arbitrary: acc)
     (auto simp: stock_ok_def order_line_error_def split: option.splits if_splits)

lemma order_updates_eq:
  "order_updates now oid us ws al =
     (ws @ item_writes (\<lambda>u. \<lparr>h_timestamp = now, h_type = ''Venta Completada'',
            h_quantity_change = Some (- u_quantity u), h_details = ''Venta ID: '' @ oid\<rparr>) us,
      al @ concat (map (\<lambda>u. case it_min_stock_alert (u_item_data u) of
           None \<Rightarrow> []
         | Some m \<Rightarrow> if m \<noteq> 0 \<and> 0 < u_new_quantity u \<and> u_new_quantity u \<le> m
             then [Low_stock_order (it_name (u_item_data u)) (u_new_quantity u) m] else []) us))"
  by (induction us arbitrary: ws al) (simp_all add: item_writes_def)

lemma commit_append:
  "commit s (ws1 @ ws2) = (case commit s ws1 of Inl e \<Rightarrow> Inl e | Inr s' \<Rightarrow> commit s' ws2)"
  by (induction ws1 arbitrary: s) (auto split: sum.splits)

lemma commit_item_writes:
  "\<forall>l\<in>set ls. inventory s (li_id l) \<noteq> None \<Longrightarrow>
   \<exists>s'. commit s (item_writes mk (map (\<lambda>l. \<lparr>u_ref = li_id l, u_new_quantity = f l, u_item_data = g l, u_quantity = li_quantity l\<rparr>) ls)) = Inr s'
     \<and> orders s' = orders s
     \<and> (\<forall>i. history s' i = history s i @ map (\<lambda>l. mk \<lparr>u_ref = li_id l, u_new_quantity = f l, u_item_data = g l, u_quantity = li_quantity l\<rparr>) (lines_of i ls))
     \<and> (\<forall>i. inventory s' i = (case inventory s i of None \<Rightarrow> None | Some d \<Rightarrow>
           if lines_of i ls = [] then Some d else Some (d\<lparr>it_quantity := Some (f (last (lines_of i ls)))\<rparr>)))"
proof (induction ls arbitrary: s)
  case Nil
  then show ?case by (simp add: item_writes_def lines_of_def split: option.splits)
next
  case (Cons l ls)
  then obtain d where d: "inventory s (li_id l) = Some d" by auto
  let ?u = "\<lparr>u_ref = li_id l, u_new_quantity = f l, u_item_data = g l, u_quantity = li_quantity l\<rparr>"
  let ?s1 = "s\<lparr>inventory := (inventory s)(li_id l \<mapsto> d\<lparr>it_quantity := Some (f l)\<rparr>),
               history := (history s)(li_id l := history s (li_id l) @ [mk ?u])\<rparr>"
  have "\<forall>k\<in>set ls. inventory ?s1 (li_id k) \<noteq> None" using Cons.prems by auto
  from Cons.IH[OF this] obtain s' where
    c: "commit ?s1 (item_writes mk (map (\<lambda>l. \<lparr>u_ref = li_id l, u_new_quantity = f l, u_item_data = g l, u_quantity = li_quantity l\<rparr>) ls)) = Inr s'"
    and o: "orders s' = orders ?s1"
    and h: "\<forall>i. history s' i = history ?s1 i @ map (\<lambda>l. mk \<lparr>u_ref = li_id l, u_new_quantity = f l, u_item_data = g l, u_quantity = li_quantity l\<rparr>) (lines_of i ls)"
    and v: "\<forall>i. inventory s' i = (case inventory ?s1 i of None \<Rightarrow> None | Some d \<Rightarrow>
           if lines_of i ls = [] then Some d else Some (d\<lparr>it_quantity := Some (f (last (lines_of i ls)))\<rparr>))"
    by blast
  have "commit s (item_writes mk (map (\<lambda>l. \<lparr>u_ref = li_id l, u_new_quantity = f l, u_item_data = g l, u_quantity = li_quantity l\<rparr>) (l # ls))) = Inr s'"
    using c d by (simp add: item_writes_def)
  moreover have "orders s' = orders s" using o by simp
  moreover have "\<forall>i. history s' i = history s i @ map (\<lambda>l. mk \<lparr>u_ref = li_id l, u_new_quantity = f l, u_item_data = g l, u_quantity = li_quantity l\<rparr>) (lines_of i (l # ls))"
    using h by (simp add: lines_of_def)
  moreover have "\<forall>i. inventory s' i = (case inventory s i of None \<Rightarrow> None | Some d \<Rightarrow>
           if lines_of i (l # ls) = [] then Some d else Some (d\<lparr>it_quantity := Some (f (last (lines_of i (l # ls))))\<rparr>))"
    using v d by (auto simp: lines_of_def split: option.splits)
  ultimately show ?case by blast
qed

lemma order_alerts_planned:
  "\<forall>l\<in>set ls. stock_ok s l \<Longrightarrow>
   concat (map (\<lambda>u. case it_min_stock_alert (u_item_data u) of
           None \<Rightarrow> []
         | Some m \<Rightarrow> if m \<noteq> 0 \<and> 0 < u_new_quantity u \<and> u_new_quantity u \<le> m
             then [mkalert (it_name (u_item_data u)) (u_new_quantity u) m] else [])
        (map (planned s) ls))
   = map (\<lambda>l. mkalert (name_of s (li_id l)) (new_quantity_of s l) (min_stock_alert_of s (li_id l)))
       (filter (\<lambda>l. low_stock (new_quantity_of s l) (min_stock_alert_of s (li_id l))) ls)"
  by (induction ls)
     (auto simp: stock_ok_def planned_def name_of_def new_quantity_of_def min_stock_alert_of_def
        low_stock_def split: option.splits)

lemma stock_ok_exists: "stock_ok s l \<Longrightarrow> inventory s (li_id l) \<noteq> None"
  by (auto simp: stock_ok_def split: option.splits)

lemma inventory_after_planned:
  "(case inventory s i of None \<Rightarrow> None | Some d \<Rightarrow>
      if lines_of i ls = [] then Some d
      else Some (d\<lparr>it_quantity := Some (quantity_of s (li_id (last (lines_of i ls))) - li_quantity (last (lines_of i ls)))\<rparr>))
   = inventory_after s ls i"
proof (cases "lines_of i ls = []")
  case True
  then show ?thesis by (simp add: inventory_after_def split: option.splits)
next
  case False
  then have "last (lines_of i ls) \<in> set (lines_of i ls)" by simp
  then have "li_id (last (lines_of i ls)) = i" by (simp add: lines_of_def)
  then show ?thesis using False
    by (simp add: inventory_after_def quantity_of_def split: option.splits)
qed

lemma complete_order_success:
  assumes od: "orders s oid = Some od" and ok: "\<forall>l\<in>set (order_lines od). stock_ok s l"
  shows "\<exists>s'. complete_order now s oid =
           (s', (True, Sale_completed (ord_title od),
              map (\<lambda>l. Low_stock_order (name_of s (li_id l)) (new_quantity_of s l)
                          (min_stock_alert_of s (li_id l)))
                (filter (\<lambda>l. low_stock (new_quantity_of s l) (min_stock_alert_of s (li_id l)))
                   (order_lines od))))
         \<and> orders s' = (orders s)(oid \<mapsto> od\<lparr>ord_status := Some ''completed'', ord_completed_at := Some now\<rparr>)
         \<and> (\<forall>i. history s' i = history s i @ map (order_entry now oid) (lines_of i (order_lines od)))
         \<and> (\<forall>i. inventory s' i = inventory_after s (order_lines od) i)"
proof -
  let ?ls = "order_lines od"
  let ?mk = "\<lambda>u. \<lparr>h_timestamp = now, h_type = ''Venta Completada'',
            h_quantity_change = Some (- u_quantity u), h_details = ''Venta ID: '' @ oid\<rparr>"
  have ex: "\<forall>l\<in>set ?ls. inventory s (li_id l) \<noteq> None" using ok stock_ok_exists by blast
  from commit_item_writes[OF ex, of ?mk "\<lambda>l. quantity_of s (li_id l) - li_quantity l"
      "\<lambda>l. the (inventory s (li_id l))"]
  obtain s1 where c: "commit s (item_writes ?mk (map (planned s) ?ls)) = Inr s1"
    and o: "orders s1 = orders s"
    and h: "\<forall>i. history s1 i = history s i @ map (order_entry now oid) (lines_of i ?ls)"
    and v: "\<forall>i. inventory s1 i = inventory_after s ?ls i"
    unfolding inventory_after_planned
    by (auto simp: planned_def[abs_def] order_entry_def[abs_def])
  let ?s' = "s1\<lparr>orders := (orders s1)(oid \<mapsto> od\<lparr>ord_status := Some ''completed'', ord_completed_at := Some now\<rparr>)\<rparr>"
  have "complete_order now s oid =
           (?s', (True, Sale_completed (ord_title od),
              map (\<lambda>l. Low_stock_order (name_of s (li_id l)) (new_quantity_of s l)
                          (min_stock_alert_of s (li_id l)))
                (filter (\<lambda>l. low_stock (new_quantity_of s l) (min_stock_alert_of s (li_id l))) ?ls)))"
    using od c o
    by (simp add: complete_order_def complete_order_atomic_def transactional_def
          verify_stock_ok[OF ok] order_updates_eq commit_append
          order_alerts_planned[OF ok] del: map_map)
  then show ?thesis using o h v by auto
qed

lemma complete_order_failure:
  assumes od: "orders s oid = Some od"
    and bad: "find (\<lambda>l. \<not> stock_ok s l) (order_lines od) = Some bad"
  shows "complete_order now s oid = (s, (False, Transaction_error (order_line_error s bad), []))"
  using od
  by (simp add: complete_order_def complete_order_atomic_def transactional_def
        verify_stock_fail[OF bad])

lemma complete_order_missing:
  "orders s oid = None \<Longrightarrow>
   complete_order now s oid = (s, (False, Transaction_error Order_missing, []))"
  by (simp add: complete_order_def complete_order_atomic_def transactional_def)

lemma verify_sale_ok:
  "\<forall>l\<in>set items. stock_ok s l \<Longrightarrow>
   verify_sale s items us es t =
     Inr (us @ map (planned s) items, es @ map (persisted_line s) items,
          t + (\<Sum>l\<leftarrow>items. store_sale_price s (li_id l) * real_of_int (li_quantity l)))"
  by (induction items arbitrary: us es t)
     (auto simp: stock_ok_def planned_def quantity_of_def persisted_line_def name_of_def
        store_sale_price_def store_purchase_price_def Let_def split: option.splits)

lemma verify_sale_fail:
  "find (\<lambda>l. \<not> stock_ok s l) items = Some bad \<Longrightarrow>
   verify_sale s items us es t = Inl (sale_line_error s bad)"
  by (induction items arbitrary: us es t)
     (auto simp: stock_ok_def sale_line_error_def Let_def split: option.splits if_splits)

lemma sale_updates_eq:
  "sale_updates now sid us ws al =
     (ws @ item_writes (\<lambda>u. \<lparr>h_timestamp = now, h_type = ''Venta Directa'',
            h_quantity_change = Some (- u_quantity u), h_details = ''ID Venta: '' @ sid\<rparr>) us,
      al @ concat (map (\<lambda>u. case it_min_stock_alert (u_item_data u) of
           None \<Rightarrow> []
         | Some m \<Rightarrow> if m \<noteq> 0 \<and> 0 < u_new_quantity u \<and> u_new_quantity u \<le> m
             then [Low_stock_sale (it_name (u_item_data u)) (u_new_quantity u) m] else []) us))"
  by (induction us arbitrary: ws al) (simp_all add: item_writes_def)

lemma process_direct_sale_success:
  assumes ok: "\<forall>l\<in>set items. stock_ok s l"
  shows "\<exists>s' od. process_direct_sale now s items sid pay =
           (s', (True, Sale_registered (sale_total s items),
              map (\<lambda>l. Low_stock_sale (name_of s (li_id l)) (new_quantity_of s l)
                          (min_stock_alert_of s (li_id l)))
                (filter (\<lambda>l. low_stock (new_quantity_of s l) (min_stock_alert_of s (li_id l)))
                   items)))
         \<and> orders s' = (orders s)(sid \<mapsto> od)
         \<and> ord_price od = Some (sale_total s items)
         \<and> ord_ingredients od = Some (map (persisted_line s) items)
         \<and> ord_status od = Some ''completed'' \<and> ord_completed_at od = Some now
         \<and> (\<forall>i. history s' i = history s i @ map (sale_entry now sid) (lines_of i items))
         \<and> (\<forall>i. inventory s' i = inventory_after s items i)"
proof -
  let ?mk = "\<lambda>u. \<lparr>h_timestamp = now, h_type = ''Venta Directa'',
            h_quantity_change = Some (- u_quantity u), h_details = ''ID Venta: '' @ sid\<rparr>"
  have ex: "\<forall>l\<in>set items. inventory s (li_id l) \<noteq> None" using ok stock_ok_exists by blast
  from commit_item_writes[OF ex, of ?mk "\<lambda>l. quantity_of s (li_id l) - li_quantity l"
      "\<lambda>l. the (inventory s (li_id l))"]
  obtain s1 where c: "commit s (item_writes ?mk (map (planned s) items)) = Inr s1"
    and o: "orders s1 = orders s"
    and h: "\<forall>i. history s1 i = history s i @ map (sale_entry now sid) (lines_of i items)"
    and v: "\<forall>i. inventory s1 i = inventory_after s items i"
    unfolding inventory_after_planned
    by (auto simp: planned_def[abs_def] sale_entry_def[abs_def])
  obtain p where p: "p = (case pay of None \<Rightarrow> \<lparr>pay_method = Some ''efectivo'', pay_customer = Some ''Cliente General''\<rparr> | Some p \<Rightarrow> p)"
    by simp
  let ?od = "\<lparr>ord_title = Some (''Venta Directa '' @ last_segment sid),
                        ord_price = Some (sale_total s items),
                        ord_ingredients = Some (map (persisted_line s) items),
                        ord_status = Some ''completed'',
                        ord_timestamp = Some now,
                        ord_completed_at = Some now,
                        ord_payment_method =
                          Some (case pay_method p of
                                  None \<Rightarrow> ''efectivo'' | Some m \<Rightarrow> m),
                        ord_customer_name =
                          Some (case pay_customer p of
                                  None \<Rightarrow> ''Cliente General'' | Some c \<Rightarrow> c),
                        ord_is_direct_sale = Some True\<rparr>"
  let ?s' = "s1\<lparr>orders := (orders s1)(sid \<mapsto> ?od)\<rparr>"
  have "process_direct_sale now s items sid pay =
           (?s', (True, Sale_registered (sale_total s items),
              map (\<lambda>l. Low_stock_sale (name_of s (li_id l)) (new_quantity_of s l)
                          (min_stock_alert_of s (li_id l)))
                (filter (\<lambda>l. low_stock (new_quantity_of s l) (min_stock_alert_of s (li_id l))) items)))"
    using c o p
    by (simp add: process_direct_sale_def process_direct_sale_atomic_def transactional_def
          verify_sale_ok[OF ok] sale_updates_eq commit_append sale_total_def Let_def
          order_alerts_planned[OF ok] del: map_map)
  moreover have "orders ?s' = (orders s)(sid \<mapsto> ?od)" using o by simp
  moreover have "ord_price ?od = Some (sale_total s items)"
    "ord_ingredients ?od = Some (map (persisted_line s) items)"
    "ord_status ?od = Some ''completed''" "ord_completed_at ?od = Some now" by simp_all
  moreover have "\<forall>i. history ?s' i = history s i @ map (sale_entry now sid) (lines_of i items)"
    using h by simp
  moreover have "\<forall>i. inventory ?s' i = inventory_after s items i" using v by simp
  ultimately show ?thesis by blast
qed

lemma process_direct_sale_failure:
  assumes bad: "find (\<lambda>l. \<not> stock_ok s l) items = Some bad"
  shows "process_direct_sale now s items sid pay = (s, (False, Sale_error (sale_line_error s bad), []))"
  by (simp add: process_direct_sale_def process_direct_sale_atomic_def transactional_def
        verify_sale_fail[OF bad] Let_def)

section \<open>Deleting an item: pages and batches\<close>
















section \<open>Completing an order: refusal\<close>

lemmas example_defs = empty_store_def blank_item_def stocked_def priced_def line_def order_of_def
  order_lines_def stock_ok_def current_quantity_def quantity_of_def order_line_error_def
  sale_line_error_def

text \<open>
  C1, as stated, fails: an order whose first line item names an item missing from the
  inventory and whose second line item requests 5 of an item with 1 in stock is refused
  with the message of the missing item, not with an insufficient-stock message.
\<close>

theorem complete_order_missing_item_first:
  "orders (empty_store\<lparr>inventory := [''A'' \<mapsto> stocked ''A'' 1],
             orders := [''o1'' \<mapsto> order_of [line ''X'' 1, line ''A'' 5] ''processing'']\<rparr>) ''o1''
     = Some (order_of [line ''X'' 1, line ''A'' 5] ''processing'')
   \<and> line ''A'' 5 \<in> set (order_lines (order_of [line ''X'' 1, line ''A'' 5] ''processing''))
   \<and> quantity_of (empty_store\<lparr>inventory := [''A'' \<mapsto> stocked ''A'' 1],
             orders := [''o1'' \<mapsto> order_of [line ''X'' 1, line ''A'' 5] ''processing'']\<rparr>) ''A''
       < li_quantity (line ''A'' 5)
   \<and> snd (complete_order 0
        (empty_store\<lparr>inventory := [''A'' \<mapsto> stocked ''A'' 1],
           orders := [''o1'' \<mapsto> order_of [line ''X'' 1, line ''A'' 5] ''processing'']\<rparr>) ''o1'')
     = (False, Transaction_error (Product_gone (Some ''X'')), [])"
  by (simp add: example_defs complete_order_def complete_order_atomic_def transactional_def)

lemma find_failing:
  "\<not> (\<forall>l\<in>set ls. stock_ok s l) \<Longrightarrow> \<exists>bad. find (\<lambda>l. \<not> stock_ok s l) ls = Some bad \<and> bad \<in> set ls \<and> \<not> stock_ok s bad"
  by (cases "find (\<lambda>l. \<not> stock_ok s l) ls") (auto simp: find_None_iff find_Some_iff)

text \<open>
  C1, amended. When some line item of the order has less in stock than it requests, the
  call returns \<open>ok = False\<close> with no alerts and the store unchanged; the message is the
  error of the first line item, in order, that fails its check. When every line item's
  inventory document exists, that error is the insufficient-stock one, naming the item
  and its available quantity, which is below the requested one.
\<close>

theorem complete_order_insufficient_stock:
  assumes "orders s order_id = Some order_data"
    and "l \<in> set (order_lines order_data)"
    and "inventory s (li_id l) = Some d"
    and "current_quantity d < li_quantity l"
  shows "\<exists>bad. find (\<lambda>l. \<not> stock_ok s l) (order_lines order_data) = Some bad
           \<and> complete_order now s order_id
               = (s, (False, Transaction_error (order_line_error s bad), []))
           \<and> ((\<forall>k\<in>set (order_lines order_data). inventory s (li_id k) \<noteq> None) \<longrightarrow>
                order_line_error s bad
                  = Insufficient_stock (li_name bad) (quantity_of s (li_id bad))
                \<and> quantity_of s (li_id bad) < li_quantity bad)"
proof -
  have "\<not> stock_ok s l" using assms(3,4) by (simp add: stock_ok_def)
  then have "\<not> (\<forall>l\<in>set (order_lines order_data). stock_ok s l)" using assms(2) by blast
  from find_failing[OF this] obtain bad
    where bad: "find (\<lambda>l. \<not> stock_ok s l) (order_lines order_data) = Some bad"
      and mem: "bad \<in> set (order_lines order_data)" and nok: "\<not> stock_ok s bad"
    by blast
  have "order_line_error s bad = Insufficient_stock (li_name bad) (quantity_of s (li_id bad))
          \<and> quantity_of s (li_id bad) < li_quantity bad"
    if "\<forall>k\<in>set (order_lines order_data). inventory s (li_id k) \<noteq> None"
  proof -
    from that mem obtain db where "inventory s (li_id bad) = Some db" by auto
    then show ?thesis using nok
      by (simp add: order_line_error_def quantity_of_def stock_ok_def)
  qed
  then show ?thesis using bad complete_order_failure[OF assms(1) bad] by blast
qed

text \<open>An order of 2 B (9 in stock) and 5 A (1 in stock) is refused for A.\<close>

theorem complete_order_insufficient_stock_witness:
  "complete_order 0
     (empty_store\<lparr>inventory := [''A'' \<mapsto> stocked ''A'' 1, ''B'' \<mapsto> stocked ''B'' 9],
        orders := [''o1'' \<mapsto> order_of [line ''B'' 2, line ''A'' 5] ''processing'']\<rparr>) ''o1''
   = (empty_store\<lparr>inventory := [''A'' \<mapsto> stocked ''A'' 1, ''B'' \<mapsto> stocked ''B'' 9],
        orders := [''o1'' \<mapsto> order_of [line ''B'' 2, line ''A'' 5] ''processing'']\<rparr>,
      (False, Transaction_error (Insufficient_stock (Some ''A'') 1), []))"
  using complete_order_insufficient_stock[of
      "empty_store\<lparr>inventory := [''A'' \<mapsto> stocked ''A'' 1, ''B'' \<mapsto> stocked ''B'' 9],
        orders := [''o1'' \<mapsto> order_of [line ''B'' 2, line ''A'' 5] ''processing'']\<rparr>"
      "''o1''" "order_of [line ''B'' 2, line ''A'' 5] ''processing''" "line ''A'' 5"
      "stocked ''A'' 1" 0]
  by (simp add: example_defs)

section \<open>Completing an order: success\<close>

lemma complete_order_ok_iff:
  assumes "orders s order_id = Some order_data"
  shows "fst (snd (complete_order now s order_id))
           = (\<forall>l\<in>set (order_lines order_data). stock_ok s l)"
proof (cases "\<forall>l\<in>set (order_lines order_data). stock_ok s l")
  case True
  from complete_order_success[OF assms True, of now] show ?thesis using True by auto
next
  case False
  from find_failing[OF False] obtain bad
    where "find (\<lambda>l. \<not> stock_ok s l) (order_lines order_data) = Some bad" by blast
  from complete_order_failure[OF assms this, of now] show ?thesis using False by simp
qed

lemma complete_order_unchanged_unless_ok:
  assumes "orders s order_id = Some order_data"
    and "\<not> (\<forall>l\<in>set (order_lines order_data). stock_ok s l)"
  shows "fst (complete_order now s order_id) = s"
proof -
  from find_failing[OF assms(2)] obtain bad
    where "find (\<lambda>l. \<not> stock_ok s l) (order_lines order_data) = Some bad" by blast
  from complete_order_failure[OF assms(1) this, of now] show ?thesis by simp
qed

text \<open>
  C2, as stated, fails: an order already \<open>completed\<close>, of 2 A with 10 A in stock, is
  completed again; the quantity of A drops to 8 and a history entry is appended.
\<close>

theorem complete_order_twice:
  "ord_status (order_of [line ''A'' 2] ''completed'') = Some ''completed''
   \<and> orders (empty_store\<lparr>inventory := [''A'' \<mapsto> stocked ''A'' 10],
               orders := [''o1'' \<mapsto> order_of [line ''A'' 2] ''completed'']\<rparr>) ''o1''
       = Some (order_of [line ''A'' 2] ''completed'')
   \<and> quantity_of (fst (complete_order 7
        (empty_store\<lparr>inventory := [''A'' \<mapsto> stocked ''A'' 10],
           orders := [''o1'' \<mapsto> order_of [line ''A'' 2] ''completed'']\<rparr>) ''o1'')) ''A'' = 8
   \<and> history (fst (complete_order 7
        (empty_store\<lparr>inventory := [''A'' \<mapsto> stocked ''A'' 10],
           orders := [''o1'' \<mapsto> order_of [line ''A'' 2] ''completed'']\<rparr>) ''o1'')) ''A''
       = [order_entry 7 ''o1'' (line ''A'' 2)]"
  by (simp add: example_defs complete_order_def complete_order_atomic_def transactional_def
        order_entry_def)

text \<open>
  C2, amended. The call does not read the order's status. On an order whose status is
  already \<open>completed\<close> it behaves as on any other: when every line item passes the stock
  check it succeeds, appends one history entry per line item and writes the decremented
  quantities; when some line item fails the check, the store is left unchanged.
\<close>

theorem complete_order_ignores_status:
  assumes "orders s order_id = Some order_data"
    and "ord_status order_data = Some ''completed''"
  shows "((\<forall>l\<in>set (order_lines order_data). stock_ok s l) \<longrightarrow>
            (\<exists>s' alerts.
               complete_order now s order_id
                 = (s', (True, Sale_completed (ord_title order_data), alerts))
               \<and> (\<forall>i. history s' i
                      = history s i
                        @ map (order_entry now order_id) (lines_of i (order_lines order_data)))
               \<and> (\<forall>i. inventory s' i = inventory_after s (order_lines order_data) i)))
         \<and> (\<not> (\<forall>l\<in>set (order_lines order_data). stock_ok s l) \<longrightarrow>
              fst (complete_order now s order_id) = s)"
proof (intro conjI impI)
  assume ok: "\<forall>l\<in>set (order_lines order_data). stock_ok s l"
  from complete_order_success[OF assms(1) ok, of now]
  show "\<exists>s' alerts.
               complete_order now s order_id
                 = (s', (True, Sale_completed (ord_title order_data), alerts))
               \<and> (\<forall>i. history s' i
                      = history s i
                        @ map (order_entry now order_id) (lines_of i (order_lines order_data)))
               \<and> (\<forall>i. inventory s' i = inventory_after s (order_lines order_data) i)"
    by blast
next
  assume "\<not> (\<forall>l\<in>set (order_lines order_data). stock_ok s l)"
  then show "fst (complete_order now s order_id) = s"
    by (rule complete_order_unchanged_unless_ok[OF assms(1)])
qed

text \<open>The order of the counterexample, through the theorem.\<close>

theorem complete_order_ignores_status_witness:
  "\<exists>s' alerts.
     complete_order 7
       (empty_store\<lparr>inventory := [''A'' \<mapsto> stocked ''A'' 10],
          orders := [''o1'' \<mapsto> order_of [line ''A'' 2] ''completed'']\<rparr>) ''o1''
       = (s', (True, Sale_completed None, alerts))
     \<and> history s' ''A'' = [order_entry 7 ''o1'' (line ''A'' 2)]
     \<and> inventory s' ''A'' = Some (stocked ''A'' 8)"
proof -
  let ?s = "empty_store\<lparr>inventory := [''A'' \<mapsto> stocked ''A'' 10],
          orders := [''o1'' \<mapsto> order_of [line ''A'' 2] ''completed'']\<rparr>"
  let ?od = "order_of [line ''A'' 2] ''completed''"
  have od: "orders ?s ''o1'' = Some ?od" and st: "ord_status ?od = Some ''completed''"
    and ok: "\<forall>l\<in>set (order_lines ?od). stock_ok ?s l"
    by (simp_all add: example_defs)
  from complete_order_ignores_status[OF od st, of 7] ok
  obtain s' alerts where run: "complete_order 7 ?s ''o1'' = (s', (True, Sale_completed (ord_title ?od), alerts))"
    and h: "\<forall>i. history s' i = history ?s i @ map (order_entry 7 ''o1'') (lines_of i (order_lines ?od))"
    and v: "\<forall>i. inventory s' i = inventory_after ?s (order_lines ?od) i"
    by blast
  have "history s' ''A'' = [order_entry 7 ''o1'' (line ''A'' 2)]"
    using spec[OF h, of "''A''"] by (simp add: example_defs lines_of_def)
  moreover have "inventory s' ''A'' = Some (stocked ''A'' 8)"
    using spec[OF v, of "''A''"] by (simp add: example_defs lines_of_def inventory_after_def)
  moreover have "ord_title ?od = None" by (simp add: order_of_def)
  ultimately show ?thesis using run by auto
qed

lemma lines_of_Cons:
  "lines_of i (x # xs) = (if li_id x = i then x # lines_of i xs else lines_of i xs)"
  by (simp add: lines_of_def)

lemma lines_of_empty_iff: "lines_of i ls = [] \<longleftrightarrow> i \<notin> set (map li_id ls)"
  by (auto simp: lines_of_def filter_empty_conv)

lemma last_lines_of:
  assumes "lines_of i ls \<noteq> []"
  shows "last (lines_of i ls) \<in> set ls" and "li_id (last (lines_of i ls)) = i"
proof -
  have "last (lines_of i ls) \<in> set (lines_of i ls)" using assms by simp
  then show "last (lines_of i ls) \<in> set ls" and "li_id (last (lines_of i ls)) = i"
    by (simp_all add: lines_of_def)
qed

text \<open>Summing over the line items, grouped by the item they name.\<close>

lemma sum_list_by_id:
  fixes f :: "lineitem \<Rightarrow> int"
  shows "(\<Sum>i\<in>set (map li_id ls). (\<Sum>l\<leftarrow>lines_of i ls. f l)) = (\<Sum>l\<leftarrow>ls. f l)"
proof (induction ls)
  case Nil
  then show ?case by simp
next
  case (Cons x xs)
  let ?S = "set (map li_id xs)"
  let ?g = "\<lambda>i. (\<Sum>l\<leftarrow>lines_of i xs. f l)"
  have fin: "finite (insert (li_id x) ?S)" by simp
  have split: "(\<Sum>l\<leftarrow>lines_of i (x # xs). f l) = (if li_id x = i then f x else 0) + ?g i" for i
    by (simp add: lines_of_Cons)
  have delta: "(\<Sum>i\<in>insert (li_id x) ?S. if li_id x = i then f x else 0) = f x"
    using fin by (simp del: sum.insert)
  have rest: "(\<Sum>i\<in>insert (li_id x) ?S. ?g i) = (\<Sum>i\<in>?S. ?g i)"
  proof (cases "li_id x \<in> ?S")
    case True
    then show ?thesis by (simp add: insert_absorb)
  next
    case False
    then have "lines_of (li_id x) xs = []" by (simp add: lines_of_empty_iff)
    then show ?thesis using False by simp
  qed
  have "(\<Sum>i\<in>set (map li_id (x # xs)). (\<Sum>l\<leftarrow>lines_of i (x # xs). f l))
          = (\<Sum>i\<in>insert (li_id x) ?S. (if li_id x = i then f x else 0) + ?g i)"
    by (simp only: split list.map list.set)
  also have "\<dots> = f x + (\<Sum>i\<in>?S. ?g i)"
    by (simp only: sum.distrib delta rest)
  finally show ?case using Cons.IH by simp
qed

lemma change_sum_order_entries:
  "change_sum (map (order_entry now order_id) ls) = - (\<Sum>l\<leftarrow>ls. li_quantity l)"
  by (induction ls) (simp_all add: change_sum_def order_entry_def)

lemma change_sum_sale_entries:
  "change_sum (map (sale_entry now sale_id) ls) = - (\<Sum>l\<leftarrow>ls. li_quantity l)"
  by (induction ls) (simp_all add: change_sum_def sale_entry_def)

lemma change_sum_append: "change_sum (xs @ ys) = change_sum xs + change_sum ys"
  by (simp add: change_sum_def)

lemma quantity_of_inventory_after:
  assumes "\<forall>i. inventory s' i = inventory_after s ls i"
  shows "quantity_of s' i =
           (if lines_of i ls = [] \<or> inventory s i = None then quantity_of s i
            else quantity_of s i - li_quantity (last (lines_of i ls)))"
  using spec[OF assms, of i]
  by (auto simp: quantity_of_def inventory_after_def current_quantity_def split: option.splits)

lemma stock_ok_iff:
  "stock_ok s l \<longleftrightarrow> inventory s (li_id l) \<noteq> None \<and> li_quantity l \<le> quantity_of s (li_id l)"
  by (auto simp: stock_ok_def quantity_of_def split: option.splits)

lemma no_order_write_in_item_writes: "filter is_order_write (item_writes mk us) = []"
  by (induction us) (simp_all add: item_writes_def)

lemma complete_order_atomic_writes:
  assumes "orders s order_id = Some order_data"
    and "\<forall>l\<in>set (order_lines order_data). stock_ok s l"
  shows "\<exists>ws r. complete_order_atomic now s order_id = Inr (ws, r)
           \<and> filter is_order_write ws = [Update_order_completed order_id now]"
  using assms(1)
  by (auto simp: complete_order_atomic_def verify_stock_ok[OF assms(2)] order_updates_eq
        no_order_write_in_item_writes)

text \<open>
  C7, as stated, fails in its boundary case: an order of 5 A and then 2 A, with 5 A in
  stock, is completed; the first line item requests exactly the quantity in stock, and
  the call leaves the quantity of A at 3, not at 0.
\<close>

theorem complete_order_boundary_repeated_item:
  "li_quantity (line ''A'' 5)
     = quantity_of (empty_store\<lparr>inventory := [''A'' \<mapsto> stocked ''A'' 5],
         orders := [''o1'' \<mapsto> order_of [line ''A'' 5, line ''A'' 2] ''processing'']\<rparr>) ''A''
   \<and> fst (snd (complete_order 7
        (empty_store\<lparr>inventory := [''A'' \<mapsto> stocked ''A'' 5],
           orders := [''o1'' \<mapsto> order_of [line ''A'' 5, line ''A'' 2] ''processing'']\<rparr>) ''o1''))
       = True
   \<and> quantity_of (fst (complete_order 7
        (empty_store\<lparr>inventory := [''A'' \<mapsto> stocked ''A'' 5],
           orders := [''o1'' \<mapsto> order_of [line ''A'' 5, line ''A'' 2] ''processing'']\<rparr>) ''o1'')) ''A''
       = 3"
  by (simp add: example_defs complete_order_def complete_order_atomic_def transactional_def)

text \<open>
  C7, amended. A call on an existing order succeeds exactly when every line item's
  inventory document exists with at least the requested quantity, so a line item that
  requests exactly the quantity in stock is valid. After a successful call: every history
  keeps its old entries and the quantity changes of the appended ones sum, over the items
  the order names, to minus the sum of the requested quantities; the order has status
  \<open>completed\<close> and \<open>completed_at\<close> the time of the call, written by the one order write
  the transaction stages; the quantity of every item named is not negative, and it is 0
  for a line item that requests exactly the quantity in stock and is the last of the
  order to name its item.
\<close>

theorem complete_order_effects:
  assumes "orders s order_id = Some order_data"
    and "complete_order now s order_id = (s', (ok, msg, alerts))"
  shows "ok = (\<forall>l\<in>set (order_lines order_data).
                 inventory s (li_id l) \<noteq> None \<and> li_quantity l \<le> quantity_of s (li_id l))
         \<and> (ok \<longrightarrow>
              (\<forall>i. take (length (history s i)) (history s' i) = history s i)
              \<and> (\<Sum>i\<in>set (map li_id (order_lines order_data)).
                    change_sum (drop (length (history s i)) (history s' i)))
                  = - (\<Sum>l\<leftarrow>order_lines order_data. li_quantity l)
              \<and> (\<forall>i. i \<notin> set (map li_id (order_lines order_data)) \<longrightarrow>
                    history s' i = history s i)
              \<and> (\<exists>od'. orders s' order_id = Some od' \<and> ord_status od' = Some ''completed''
                    \<and> ord_completed_at od' = Some now)
              \<and> (\<exists>ws r. complete_order_atomic now s order_id = Inr (ws, r)
                    \<and> filter is_order_write ws = [Update_order_completed order_id now])
              \<and> (\<forall>l\<in>set (order_lines order_data). 0 \<le> quantity_of s' (li_id l))
              \<and> (\<forall>l\<in>set (order_lines order_data).
                    li_quantity l = quantity_of s (li_id l)
                    \<and> last (lines_of (li_id l) (order_lines order_data)) = l
                    \<longrightarrow> quantity_of s' (li_id l) = 0))"
proof (intro conjI impI)
  let ?ls = "order_lines order_data"
  have iff: "ok = (\<forall>l\<in>set ?ls. stock_ok s l)"
    using complete_order_ok_iff[OF assms(1), of now] assms(2) by simp
  then show "ok = (\<forall>l\<in>set ?ls.
                 inventory s (li_id l) \<noteq> None \<and> li_quantity l \<le> quantity_of s (li_id l))"
    by (simp add: stock_ok_iff)
  assume ok
  then have all: "\<forall>l\<in>set ?ls. stock_ok s l" using iff by simp
  from complete_order_success[OF assms(1) all, of now] assms(2)
  have o: "orders s' = (orders s)(order_id \<mapsto>
             order_data\<lparr>ord_status := Some ''completed'', ord_completed_at := Some now\<rparr>)"
    and h: "\<forall>i. history s' i = history s i @ map (order_entry now order_id) (lines_of i ?ls)"
    and v: "\<forall>i. inventory s' i = inventory_after s ?ls i"
    by auto
  show "\<forall>i. take (length (history s i)) (history s' i) = history s i"
    using h by simp
  have "change_sum (drop (length (history s i)) (history s' i))
          = (\<Sum>l\<leftarrow>lines_of i ?ls. - li_quantity l)" for i
    using spec[OF h, of i]
    by (simp add: change_sum_order_entries uminus_sum_list_map o_def)
  then show "(\<Sum>i\<in>set (map li_id ?ls). change_sum (drop (length (history s i)) (history s' i)))
          = - (\<Sum>l\<leftarrow>?ls. li_quantity l)"
    by (simp only: sum_list_by_id) (simp add: uminus_sum_list_map o_def)
  show "\<forall>i. i \<notin> set (map li_id ?ls) \<longrightarrow> history s' i = history s i"
    using h lines_of_empty_iff[of _ ?ls] by simp
  show "\<exists>od'. orders s' order_id = Some od' \<and> ord_status od' = Some ''completed''
          \<and> ord_completed_at od' = Some now"
    using o by simp
  show "\<exists>ws r. complete_order_atomic now s order_id = Inr (ws, r)
          \<and> filter is_order_write ws = [Update_order_completed order_id now]"
    by (rule complete_order_atomic_writes[OF assms(1) all])
  have after: "quantity_of s' (li_id l)
                 = quantity_of s (li_id l) - li_quantity (last (lines_of (li_id l) ?ls))"
    and last_ok: "stock_ok s (last (lines_of (li_id l) ?ls))"
    and last_id: "li_id (last (lines_of (li_id l) ?ls)) = li_id l"
    if "l \<in> set ?ls" for l
  proof -
    have ne: "lines_of (li_id l) ?ls \<noteq> []" using that by (simp add: lines_of_empty_iff)
    have "inventory s (li_id l) \<noteq> None" using all that stock_ok_exists by blast
    then show "quantity_of s' (li_id l)
                 = quantity_of s (li_id l) - li_quantity (last (lines_of (li_id l) ?ls))"
      using ne by (auto simp: quantity_of_inventory_after[OF v])
    show "stock_ok s (last (lines_of (li_id l) ?ls))" using all last_lines_of(1)[OF ne] by blast
    show "li_id (last (lines_of (li_id l) ?ls)) = li_id l" by (rule last_lines_of(2)[OF ne])
  qed
  show "\<forall>l\<in>set ?ls. 0 \<le> quantity_of s' (li_id l)"
  proof
    fix l assume l: "l \<in> set ?ls"
    from last_ok[OF l] last_id[OF l]
    have "li_quantity (last (lines_of (li_id l) ?ls)) \<le> quantity_of s (li_id l)"
      by (simp add: stock_ok_iff)
    then show "0 \<le> quantity_of s' (li_id l)" using after[OF l] by simp
  qed
  show "\<forall>l\<in>set ?ls. li_quantity l = quantity_of s (li_id l)
          \<and> last (lines_of (li_id l) ?ls) = l \<longrightarrow> quantity_of s' (li_id l) = 0"
    using after by simp
qed

text \<open>An order of exactly the 5 A in stock succeeds and leaves the quantity of A at 0.\<close>

theorem complete_order_effects_witness:
  "\<exists>s' msg alerts.
     complete_order 7
       (empty_store\<lparr>inventory := [''A'' \<mapsto> stocked ''A'' 5],
          orders := [''o1'' \<mapsto> order_of [line ''A'' 5] ''processing'']\<rparr>) ''o1''
       = (s', (True, msg, alerts))
     \<and> quantity_of s' ''A'' = 0
     \<and> change_sum (history s' ''A'') = - 5"
proof -
  let ?s = "empty_store\<lparr>inventory := [''A'' \<mapsto> stocked ''A'' 5],
          orders := [''o1'' \<mapsto> order_of [line ''A'' 5] ''processing'']\<rparr>"
  let ?od = "order_of [line ''A'' 5] ''processing''"
  have od: "orders ?s ''o1'' = Some ?od" by (simp add: example_defs)
  obtain s' ok msg alerts where run: "complete_order 7 ?s ''o1'' = (s', (ok, msg, alerts))"
    by (cases "complete_order 7 ?s ''o1''") auto
  note effects = complete_order_effects[OF od run]
  have ok: ok using effects by (simp add: example_defs)
  have "\<forall>l\<in>set (order_lines ?od). li_quantity l = quantity_of ?s (li_id l)
          \<and> last (lines_of (li_id l) (order_lines ?od)) = l \<longrightarrow> quantity_of s' (li_id l) = 0"
    using effects ok by blast
  then have q: "quantity_of s' ''A'' = 0" by (simp add: example_defs lines_of_def)
  have "(\<Sum>i\<in>set (map li_id (order_lines ?od)).
            change_sum (drop (length (history ?s i)) (history s' i)))
          = - (\<Sum>l\<leftarrow>order_lines ?od. li_quantity l)"
    using effects ok by blast
  then have "change_sum (history s' ''A'') = - 5" by (simp add: example_defs)
  then show ?thesis using run ok q by auto
qed

section \<open>Direct sales\<close>








section \<open>Low-stock alerts\<close>

text \<open>
  C6, as stated, fails when a call names an item twice. A direct sale of 1 A and then
  5 A, with 5 A in stock and the threshold 5, succeeds and leaves the quantity of A at 0,
  and it returns the alert \<open>4/5\<close>: an alert for an item whose new quantity is 0. An
  order of 4 A and then 1 A, with 5 A in stock and the threshold 2, is completed and
  leaves the quantity of A at 4, above the threshold, and it returns the alert \<open>1/2\<close>.
\<close>

theorem low_stock_alert_repeated_item:
  "snd (process_direct_sale 7
     (empty_store\<lparr>inventory := [''A'' \<mapsto> (stocked ''A'' 5)\<lparr>it_min_stock_alert := Some 5\<rparr>]\<rparr>)
     [line ''A'' 1, line ''A'' 5] ''Venta-1'' None)
     = (True, Sale_registered 0, [Low_stock_sale (Some ''A'') 4 5])
   \<and> quantity_of (fst (process_direct_sale 7
        (empty_store\<lparr>inventory := [''A'' \<mapsto> (stocked ''A'' 5)\<lparr>it_min_stock_alert := Some 5\<rparr>]\<rparr>)
        [line ''A'' 1, line ''A'' 5] ''Venta-1'' None)) ''A'' = 0
   \<and> snd (complete_order 7
        (empty_store\<lparr>inventory := [''A'' \<mapsto> (stocked ''A'' 5)\<lparr>it_min_stock_alert := Some 2\<rparr>],
           orders := [''o1'' \<mapsto> order_of [line ''A'' 4, line ''A'' 1] ''processing'']\<rparr>) ''o1'')
       = (True, Sale_completed None, [Low_stock_order (Some ''A'') 1 2])
   \<and> quantity_of (fst (complete_order 7
        (empty_store\<lparr>inventory := [''A'' \<mapsto> (stocked ''A'' 5)\<lparr>it_min_stock_alert := Some 2\<rparr>],
           orders := [''o1'' \<mapsto> order_of [line ''A'' 4, line ''A'' 1] ''processing'']\<rparr>) ''o1'')) ''A''
       = 4"
  by (simp add: example_defs process_direct_sale_def process_direct_sale_atomic_def
        complete_order_def complete_order_atomic_def transactional_def Let_def)

lemma last_line_quantity:
  assumes ok: "\<forall>l\<in>set ls. stock_ok s l"
    and v: "\<forall>i. inventory s' i = inventory_after s ls i"
    and l: "l \<in> set ls" and last: "last (lines_of (li_id l) ls) = l"
  shows "quantity_of s' (li_id l) = new_quantity_of s l"
proof -
  have "lines_of (li_id l) ls \<noteq> []" using l by (simp add: lines_of_empty_iff)
  moreover have "inventory s (li_id l) \<noteq> None" using ok l stock_ok_exists by blast
  ultimately show ?thesis
    using last by (auto simp: quantity_of_inventory_after[OF v] new_quantity_of_def)
qed

text \<open>
  C6, amended. Each transaction succeeds exactly when every line item's inventory
  document exists with at least the requested quantity. A successful call returns, in
  the order of the line items, one alert for each line item for which
  \<open>0 < q \<le> m\<close> and \<open>m > 0\<close>, and no other, where \<open>m\<close> is the threshold of the item (0
  when unset) and \<open>q\<close> is the quantity the item had when the call started minus the
  quantity of that line item; \<open>q\<close> is the item's quantity after the call for the last
  line item, and so for the only one, that names the item. A line item with \<open>q = 0\<close>
  or with a threshold zero or unset raises no alert, and a failing call returns none.
\<close>

theorem low_stock_alert_per_line:
  "(orders s order_id = Some order_data \<longrightarrow>
      fst (snd (complete_order now s order_id))
        = (\<forall>l\<in>set (order_lines order_data).
             inventory s (li_id l) \<noteq> None \<and> li_quantity l \<le> quantity_of s (li_id l))
      \<and> snd (snd (snd (complete_order now s order_id)))
        = (if \<forall>l\<in>set (order_lines order_data).
                inventory s (li_id l) \<noteq> None \<and> li_quantity l \<le> quantity_of s (li_id l)
           then map (\<lambda>l. Low_stock_order (name_of s (li_id l)) (new_quantity_of s l)
                          (min_stock_alert_of s (li_id l)))
                  (filter (\<lambda>l. low_stock (new_quantity_of s l) (min_stock_alert_of s (li_id l)))
                     (order_lines order_data))
           else [])
      \<and> ((\<forall>l\<in>set (order_lines order_data).
             inventory s (li_id l) \<noteq> None \<and> li_quantity l \<le> quantity_of s (li_id l)) \<longrightarrow>
          (\<forall>l\<in>set (order_lines order_data).
             last (lines_of (li_id l) (order_lines order_data)) = l \<longrightarrow>
             quantity_of (fst (complete_order now s order_id)) (li_id l) = new_quantity_of s l)))
   \<and> (orders s order_id = None \<longrightarrow> snd (complete_order now s order_id)
         = (False, Transaction_error Order_missing, []))
   \<and> fst (snd (process_direct_sale now s items sale_id pay))
       = (\<forall>l\<in>set items.
            inventory s (li_id l) \<noteq> None \<and> li_quantity l \<le> quantity_of s (li_id l))
   \<and> snd (snd (snd (process_direct_sale now s items sale_id pay)))
       = (if \<forall>l\<in>set items.
               inventory s (li_id l) \<noteq> None \<and> li_quantity l \<le> quantity_of s (li_id l)
          then map (\<lambda>l. Low_stock_sale (name_of s (li_id l)) (new_quantity_of s l)
                         (min_stock_alert_of s (li_id l)))
                 (filter (\<lambda>l. low_stock (new_quantity_of s l) (min_stock_alert_of s (li_id l)))
                    items)
          else [])
   \<and> ((\<forall>l\<in>set items.
          inventory s (li_id l) \<noteq> None \<and> li_quantity l \<le> quantity_of s (li_id l)) \<longrightarrow>
        (\<forall>l\<in>set items.
           last (lines_of (li_id l) items) = l \<longrightarrow>
           quantity_of (fst (process_direct_sale now s items sale_id pay)) (li_id l)
             = new_quantity_of s l))
   \<and> \<not> low_stock 0 m \<and> \<not> low_stock q 0"
proof -
  have order_part:
    "fst (snd (complete_order now s order_id)) = (\<forall>l\<in>set (order_lines od). stock_ok s l)
     \<and> snd (snd (snd (complete_order now s order_id)))
        = (if \<forall>l\<in>set (order_lines od). stock_ok s l
           then map (\<lambda>l. Low_stock_order (name_of s (li_id l)) (new_quantity_of s l)
                          (min_stock_alert_of s (li_id l)))
                  (filter (\<lambda>l. low_stock (new_quantity_of s l) (min_stock_alert_of s (li_id l)))
                     (order_lines od))
           else [])
     \<and> ((\<forall>l\<in>set (order_lines od). stock_ok s l) \<longrightarrow>
          (\<forall>l\<in>set (order_lines od).
             last (lines_of (li_id l) (order_lines od)) = l \<longrightarrow>
             quantity_of (fst (complete_order now s order_id)) (li_id l) = new_quantity_of s l))"
    if od: "orders s order_id = Some od" for od
  proof (cases "\<forall>l\<in>set (order_lines od). stock_ok s l")
    case True
    from complete_order_success[OF od True, of now]
    obtain s' where run: "complete_order now s order_id =
           (s', (True, Sale_completed (ord_title od),
              map (\<lambda>l. Low_stock_order (name_of s (li_id l)) (new_quantity_of s l)
                          (min_stock_alert_of s (li_id l)))
                (filter (\<lambda>l. low_stock (new_quantity_of s l) (min_stock_alert_of s (li_id l)))
                   (order_lines od))))"
      and v: "\<forall>i. inventory s' i = inventory_after s (order_lines od) i"
      by blast
    have "\<forall>l\<in>set (order_lines od). last (lines_of (li_id l) (order_lines od)) = l \<longrightarrow>
             quantity_of s' (li_id l) = new_quantity_of s l"
      using last_line_quantity[OF True v] by blast
    then show ?thesis using True run by simp
  next
    case False
    from find_failing[OF False] obtain bad
      where "find (\<lambda>l. \<not> stock_ok s l) (order_lines od) = Some bad" by blast
    from complete_order_failure[OF od this, of now] show ?thesis using False by auto
  qed
  have sale_part:
    "fst (snd (process_direct_sale now s items sale_id pay)) = (\<forall>l\<in>set items. stock_ok s l)
     \<and> snd (snd (snd (process_direct_sale now s items sale_id pay)))
        = (if \<forall>l\<in>set items. stock_ok s l
           then map (\<lambda>l. Low_stock_sale (name_of s (li_id l)) (new_quantity_of s l)
                          (min_stock_alert_of s (li_id l)))
                  (filter (\<lambda>l. low_stock (new_quantity_of s l) (min_stock_alert_of s (li_id l)))
                     items)
           else [])
     \<and> ((\<forall>l\<in>set items. stock_ok s l) \<longrightarrow>
          (\<forall>l\<in>set items.
             last (lines_of (li_id l) items) = l \<longrightarrow>
             quantity_of (fst (process_direct_sale now s items sale_id pay)) (li_id l)
               = new_quantity_of s l))"
  proof (cases "\<forall>l\<in>set items. stock_ok s l")
    case True
    from process_direct_sale_success[OF True, of now sale_id pay]
    obtain s' where run: "process_direct_sale now s items sale_id pay =
           (s', (True, Sale_registered (sale_total s items),
              map (\<lambda>l. Low_stock_sale (name_of s (li_id l)) (new_quantity_of s l)
                          (min_stock_alert_of s (li_id l)))
                (filter (\<lambda>l. low_stock (new_quantity_of s l) (min_stock_alert_of s (li_id l)))
                   items)))"
      and v: "\<forall>i. inventory s' i = inventory_after s items i"
      by blast
    have "\<forall>l\<in>set items. last (lines_of (li_id l) items) = l \<longrightarrow>
             quantity_of s' (li_id l) = new_quantity_of s l"
      using last_line_quantity[OF True v] by blast
    then show ?thesis using True run by simp
  next
    case False
    from find_failing[OF False] obtain bad
      where "find (\<lambda>l. \<not> stock_ok s l) items = Some bad" by blast
    from process_direct_sale_failure[OF this, of now sale_id pay] show ?thesis
      using False by auto
  qed
  have missing: "snd (complete_order now s order_id)
         = (False, Transaction_error Order_missing, [])" if "orders s order_id = None"
    using that by (simp add: complete_order_missing)
  have rule: "\<not> low_stock 0 m" "\<not> low_stock q 0" by (simp_all add: low_stock_def)
  show ?thesis
    using order_part[of order_data] sale_part missing rule
    unfolding stock_ok_iff by blast
qed

text \<open>
  With 10 A in stock and the threshold 5: an order of 6 A and a direct sale of 6 A each
  raise the alert \<open>4/5\<close> and leave 4 A; a direct sale of all 10 A leaves 0 and raises
  none; an order that does not exist returns no alert.
\<close>

theorem low_stock_alert_per_line_witness:
  "snd (snd (snd (complete_order 7
      (empty_store\<lparr>inventory := [''A'' \<mapsto> (stocked ''A'' 10)\<lparr>it_min_stock_alert := Some 5\<rparr>],
         orders := [''o1'' \<mapsto> order_of [line ''A'' 6] ''processing'']\<rparr>) ''o1'')))
     = [Low_stock_order (Some ''A'') 4 5]
   \<and> snd (snd (snd (process_direct_sale 7
      (empty_store\<lparr>inventory := [''A'' \<mapsto> (stocked ''A'' 10)\<lparr>it_min_stock_alert := Some 5\<rparr>],
         orders := [''o1'' \<mapsto> order_of [line ''A'' 6] ''processing'']\<rparr>)
      [line ''A'' 6] ''Venta-1'' None)))
     = [Low_stock_sale (Some ''A'') 4 5]
   \<and> quantity_of (fst (process_direct_sale 7
      (empty_store\<lparr>inventory := [''A'' \<mapsto> (stocked ''A'' 10)\<lparr>it_min_stock_alert := Some 5\<rparr>],
         orders := [''o1'' \<mapsto> order_of [line ''A'' 6] ''processing'']\<rparr>)
      [line ''A'' 6] ''Venta-1'' None)) ''A'' = 4
   \<and> snd (snd (snd (process_direct_sale 7
      (empty_store\<lparr>inventory := [''A'' \<mapsto> (stocked ''A'' 10)\<lparr>it_min_stock_alert := Some 5\<rparr>],
         orders := [''o1'' \<mapsto> order_of [line ''A'' 6] ''processing'']\<rparr>)
      [line ''A'' 10] ''Venta-2'' None)))
     = []
   \<and> snd (complete_order 7
      (empty_store\<lparr>inventory := [''A'' \<mapsto> (stocked ''A'' 10)\<lparr>it_min_stock_alert := Some 5\<rparr>],
         orders := [''o1'' \<mapsto> order_of [line ''A'' 6] ''processing'']\<rparr>) ''o2'')
     = (False, Transaction_error Order_missing, [])"
proof -
  let ?s = "empty_store\<lparr>inventory := [''A'' \<mapsto> (stocked ''A'' 10)\<lparr>it_min_stock_alert := Some 5\<rparr>],
         orders := [''o1'' \<mapsto> order_of [line ''A'' 6] ''processing'']\<rparr>"
  let ?od = "order_of [line ''A'' 6] ''processing''"
  note defs = example_defs low_stock_def new_quantity_of_def min_stock_alert_of_def name_of_def
    lines_of_def
  note one = low_stock_alert_per_line[of ?s "''o1''" ?od 7 "[line ''A'' 6]" "''Venta-1''" None]
  note two = low_stock_alert_per_line[of ?s "''o2''" ?od 7 "[line ''A'' 10]" "''Venta-2''" None]
  have od: "orders ?s ''o1'' = Some ?od" and no: "orders ?s ''o2'' = None"
    by (simp_all add: example_defs)
  have "snd (snd (snd (complete_order 7 ?s ''o1''))) = [Low_stock_order (Some ''A'') 4 5]"
    using one od by (simp add: defs)
  moreover have "snd (snd (snd (process_direct_sale 7 ?s [line ''A'' 6] ''Venta-1'' None)))
      = [Low_stock_sale (Some ''A'') 4 5]"
    using one by (simp add: defs)
  moreover have "quantity_of (fst (process_direct_sale 7 ?s [line ''A'' 6] ''Venta-1'' None)) ''A'' = 4"
    using one by (simp add: defs)
  moreover have "snd (snd (snd (process_direct_sale 7 ?s [line ''A'' 10] ''Venta-2'' None))) = []"
    using two by (simp add: defs)
  moreover have "snd (complete_order 7 ?s ''o2'') = (False, Transaction_error Order_missing, [])"
    using two no by blast
  ultimately show ?thesis by simp
qed

section \<open>The retry wrapper\<close>

lemma retry_loop_never_reraises: "fst (retry_loop func n delay s slept) \<noteq> Inl (Raised e)"
  by (induction n arbitrary: delay s slept) (auto split: prod.splits sum.splits)

text \<open>
  C4. An operation that fails at each of its attempts, here with the error
  \<open>''unavailable''\<close> and counting its calls in the state: the wrapper calls it 3 times and
  sleeps 1, 2 and 4 units, and then raises the \<open>RuntimeError\<close> of the bare
  \<^verbatim>\<open>raise\<close>, not the error of the operation.
\<close>

theorem firestore_retry_exhausted:
  "firestore_retry (\<lambda>calls::nat. (Inl ''unavailable'' :: string + unit, Suc calls)) 0
     = (Inl RuntimeError_no_active_exception, 3, [1, 2, 4])"
  by (simp add: firestore_retry_def numeral_3_eq_3)

section \<open>Saving an item\<close>

lemma save_inventory_item_eq:
  "save_inventory_item now s data custom_id is_new details =
     (Inr (), save_item_body now data custom_id is_new details s, [])"
  by (simp add: save_inventory_item_def firestore_retry_def numeral_3_eq_3)

text \<open>
  C9, as stated, fails: item A holds the quantity 7 and is saved with data that carry a
  name and no quantity. After the write the item's quantity is still 7, and the history
  entry appended has a null quantity change.
\<close>

theorem save_inventory_item_without_quantity:
  "it_quantity (blank_item\<lparr>it_name := Some ''A2''\<rparr>) = None
   \<and> map_option it_quantity
       (inventory (fst (snd (save_inventory_item 7
          (empty_store\<lparr>inventory := [''A'' \<mapsto> stocked ''A'' 7]\<rparr>)
          (blank_item\<lparr>it_name := Some ''A2''\<rparr>) ''A'' False None))) ''A'')
       = Some (Some 7)
   \<and> map h_quantity_change
       (history (fst (snd (save_inventory_item 7
          (empty_store\<lparr>inventory := [''A'' \<mapsto> stocked ''A'' 7]\<rparr>)
          (blank_item\<lparr>it_name := Some ''A2''\<rparr>) ''A'' False None))) ''A'')
       = [None]"
  by (simp add: save_inventory_item_eq save_item_body_def set_merge_def merge_field_def
        example_defs)

text \<open>
  C9, amended. A save returns at its first attempt. It writes the document with merge
  semantics: a field that the data carry takes the data's value, any other keeps the
  value of the old document. It appends exactly one history entry to the item, of type
  \<open>Stock Inicial\<close> when \<open>is_new\<close> and \<open>Ajuste Manual\<close> otherwise, whose quantity change
  is the quantity field of the data as passed: the item's quantity after the write when
  the data carry a quantity, and null when they do not. Nothing else changes.
\<close>

theorem save_inventory_item_entry:
  "\<exists>s' doc h.
     save_inventory_item now s data custom_id is_new details = (Inr (), s', [])
     \<and> inventory s' custom_id = Some doc
     \<and> it_name doc = merged it_name (inventory s custom_id) data
     \<and> it_quantity doc = merged it_quantity (inventory s custom_id) data
     \<and> it_sale_price doc = merged it_sale_price (inventory s custom_id) data
     \<and> it_purchase_price doc = merged it_purchase_price (inventory s custom_id) data
     \<and> it_min_stock_alert doc = merged it_min_stock_alert (inventory s custom_id) data
     \<and> it_updated_at doc = merged it_updated_at (inventory s custom_id) data
     \<and> history s' custom_id = history s custom_id @ [h]
     \<and> h_type h = (if is_new then ''Stock Inicial'' else ''Ajuste Manual'')
     \<and> h_quantity_change h = it_quantity data
     \<and> (it_quantity data \<noteq> None \<longrightarrow> h_quantity_change h = it_quantity doc)
     \<and> (\<forall>i. i \<noteq> custom_id \<longrightarrow> inventory s' i = inventory s i \<and> history s' i = history s i)
     \<and> orders s' = orders s"
  by (cases "inventory s custom_id")
     (auto simp: save_inventory_item_eq save_item_body_def set_merge_def merge_field_def
        merged_def Let_def split: option.splits)

text \<open>Item A, with 7 in stock, saved with the quantity 9 and with no quantity.\<close>

theorem save_inventory_item_entry_witness:
  "(\<exists>s' h. save_inventory_item 7 (empty_store\<lparr>inventory := [''A'' \<mapsto> stocked ''A'' 7]\<rparr>)
              (blank_item\<lparr>it_quantity := Some 9\<rparr>) ''A'' False None = (Inr (), s', [])
      \<and> inventory s' ''A'' = Some (stocked ''A'' 9)
      \<and> history s' ''A'' = [h] \<and> h_type h = ''Ajuste Manual'' \<and> h_quantity_change h = Some 9)
   \<and> (\<exists>s' h. save_inventory_item 7 (empty_store\<lparr>inventory := [''A'' \<mapsto> stocked ''A'' 7]\<rparr>)
              (blank_item\<lparr>it_updated_at := Some ''today''\<rparr>) ''A'' False None = (Inr (), s', [])
      \<and> map_option it_quantity (inventory s' ''A'') = Some (Some 7)
      \<and> history s' ''A'' = [h] \<and> h_quantity_change h = None)"
proof (intro conjI)
  let ?s = "empty_store\<lparr>inventory := [''A'' \<mapsto> stocked ''A'' 7]\<rparr>"
  from save_inventory_item_entry[of 7 ?s "blank_item\<lparr>it_quantity := Some 9\<rparr>" "''A''" False None]
  obtain s' doc h
    where "save_inventory_item 7 ?s (blank_item\<lparr>it_quantity := Some 9\<rparr>) ''A'' False None
             = (Inr (), s', [])"
      and "inventory s' ''A'' = Some doc"
      and "it_name doc = merged it_name (inventory ?s ''A'') (blank_item\<lparr>it_quantity := Some 9\<rparr>)"
      and "it_quantity doc = merged it_quantity (inventory ?s ''A'') (blank_item\<lparr>it_quantity := Some 9\<rparr>)"
      and "it_sale_price doc = merged it_sale_price (inventory ?s ''A'') (blank_item\<lparr>it_quantity := Some 9\<rparr>)"
      and "it_purchase_price doc
             = merged it_purchase_price (inventory ?s ''A'') (blank_item\<lparr>it_quantity := Some 9\<rparr>)"
      and "it_min_stock_alert doc
             = merged it_min_stock_alert (inventory ?s ''A'') (blank_item\<lparr>it_quantity := Some 9\<rparr>)"
      and "it_updated_at doc
             = merged it_updated_at (inventory ?s ''A'') (blank_item\<lparr>it_quantity := Some 9\<rparr>)"
      and "history s' ''A'' = history ?s ''A'' @ [h]"
      and "h_type h = (if False then ''Stock Inicial'' else ''Ajuste Manual'')"
      and "h_quantity_change h = it_quantity (blank_item\<lparr>it_quantity := Some 9\<rparr>)"
    by blast
  then show "\<exists>s' h. save_inventory_item 7 ?s (blank_item\<lparr>it_quantity := Some 9\<rparr>) ''A'' False None
                = (Inr (), s', [])
      \<and> inventory s' ''A'' = Some (stocked ''A'' 9)
      \<and> history s' ''A'' = [h] \<and> h_type h = ''Ajuste Manual'' \<and> h_quantity_change h = Some 9"
    by (intro exI[of _ s'] exI[of _ h]) (simp add: example_defs merged_def)
  from save_inventory_item_entry[of 7 ?s "blank_item\<lparr>it_updated_at := Some ''today''\<rparr>" "''A''" False None]
  obtain t' doc' h'
    where "save_inventory_item 7 ?s (blank_item\<lparr>it_updated_at := Some ''today''\<rparr>) ''A'' False None
             = (Inr (), t', [])"
      and "inventory t' ''A'' = Some doc'"
      and "it_quantity doc'
             = merged it_quantity (inventory ?s ''A'') (blank_item\<lparr>it_updated_at := Some ''today''\<rparr>)"
      and "history t' ''A'' = history ?s ''A'' @ [h']"
      and "h_quantity_change h' = it_quantity (blank_item\<lparr>it_updated_at := Some ''today''\<rparr>)"
    by blast
  then show "\<exists>s' h. save_inventory_item 7 ?s (blank_item\<lparr>it_updated_at := Some ''today''\<rparr>) ''A'' False None
                = (Inr (), s', [])
      \<and> map_option it_quantity (inventory s' ''A'') = Some (Some 7)
      \<and> history s' ''A'' = [h] \<and> h_quantity_change h = None"
    by (intro exI[of _ t'] exI[of _ h']) (simp add: example_defs merged_def)
qed

section \<open>History and quantity over a sequence of operations\<close>

text \<open>
  C3, as stated, fails: item A is created with the quantity 10 and then saved with the
  quantity 15. Its history sums to 25, its quantity is 15, and the quantity was 10 at
  creation and 0 before: the sum is neither \<open>15 - 10\<close> nor \<open>15 - 0\<close>.
\<close>

theorem history_sum_after_two_saves:
  "quantity_of (run_all empty_store [(1, SaveItem (stocked ''A'' 10) ''A'' True None)]) ''A'' = 10
   \<and> quantity_of (run_all empty_store
        [(1, SaveItem (stocked ''A'' 10) ''A'' True None),
         (2, SaveItem (stocked ''A'' 15) ''A'' False None)]) ''A'' = 15
   \<and> change_sum (history (run_all empty_store
        [(1, SaveItem (stocked ''A'' 10) ''A'' True None),
         (2, SaveItem (stocked ''A'' 15) ''A'' False None)]) ''A'') = 25
   \<and> change_sum (history (run_all empty_store
        [(1, SaveItem (stocked ''A'' 10) ''A'' True None),
         (2, SaveItem (stocked ''A'' 15) ''A'' False None)]) ''A'')
       \<noteq> quantity_of (run_all empty_store
           [(1, SaveItem (stocked ''A'' 10) ''A'' True None),
            (2, SaveItem (stocked ''A'' 15) ''A'' False None)]) ''A''
         - quantity_of (run_all empty_store
             [(1, SaveItem (stocked ''A'' 10) ''A'' True None)]) ''A''
   \<and> change_sum (history (run_all empty_store
        [(1, SaveItem (stocked ''A'' 10) ''A'' True None),
         (2, SaveItem (stocked ''A'' 15) ''A'' False None)]) ''A'')
       \<noteq> quantity_of (run_all empty_store
           [(1, SaveItem (stocked ''A'' 10) ''A'' True None),
            (2, SaveItem (stocked ''A'' 15) ''A'' False None)]) ''A''
         - quantity_of empty_store ''A''"
  by (simp add: save_inventory_item_eq save_item_body_def set_merge_def merge_field_def
        example_defs change_sum_def)

lemma lines_of_distinct:
  "distinct (map li_id ls) \<Longrightarrow> lines_of i ls = [] \<or> (\<exists>l. lines_of i ls = [l])"
proof (induction ls)
  case Nil
  then show ?case by (simp add: lines_of_def)
next
  case (Cons x xs)
  show ?case
  proof (cases "li_id x = i")
    case True
    then have "i \<notin> set (map li_id xs)" using Cons.prems by auto
    then have "lines_of i xs = []" by (simp add: lines_of_empty_iff)
    then show ?thesis using True by (simp add: lines_of_Cons)
  next
    case False
    then show ?thesis using Cons by (simp add: lines_of_Cons)
  qed
qed

text \<open>
  A transaction over line items with distinct items that all pass the check moves the
  history sum and the quantity of every item by the same amount.
\<close>

lemma ledger_in_step:
  assumes d: "distinct (map li_id ls)"
    and ok: "\<forall>l\<in>set ls. stock_ok s l"
    and h: "\<forall>i. history s' i = history s i @ map entry (lines_of i ls)"
    and e: "\<And>xs. change_sum (map entry xs) = - (\<Sum>l\<leftarrow>xs. li_quantity l)"
    and v: "\<forall>i. inventory s' i = inventory_after s ls i"
  shows "change_sum (history s' i) - change_sum (history s i) = quantity_of s' i - quantity_of s i"
proof -
  have hs: "change_sum (history s' i) - change_sum (history s i)
              = - (\<Sum>l\<leftarrow>lines_of i ls. li_quantity l)"
    using spec[OF h, of i] by (simp add: change_sum_append e)
  from lines_of_distinct[OF d, of i] show ?thesis
  proof
    assume "lines_of i ls = []"
    then show ?thesis using hs by (simp add: quantity_of_inventory_after[OF v])
  next
    assume "\<exists>l. lines_of i ls = [l]"
    then obtain l where l: "lines_of i ls = [l]" by blast
    then have "l \<in> set (lines_of i ls)" by simp
    then have "l \<in> set ls" "li_id l = i" by (simp_all add: lines_of_def)
    then have "inventory s i \<noteq> None" using ok stock_ok_exists by blast
    then show ?thesis using hs l by (auto simp: quantity_of_inventory_after[OF v])
  qed
qed

lemma perform_in_step:
  assumes "in_step s operation"
  shows "change_sum (history (perform now s operation) i) - change_sum (history s i)
           = quantity_of (perform now s operation) i - quantity_of s i"
proof (cases operation)
  case (SaveItem data custom_id is_new details)
  show ?thesis
  proof (cases "i = custom_id")
    case False
    then show ?thesis using SaveItem
      by (simp add: save_inventory_item_eq save_item_body_def Let_def quantity_of_def)
  next
    case True
    from assms SaveItem have "it_quantity data = None \<or> quantity_of s custom_id = 0" by simp
    then show ?thesis using SaveItem True
      by (cases "inventory s custom_id")
         (auto simp: save_inventory_item_eq save_item_body_def Let_def quantity_of_def
            change_sum_def set_merge_def merge_field_def current_quantity_def
            split: option.splits)
  qed
next
  case (CompleteOrder order_id)
  show ?thesis
  proof (cases "orders s order_id")
    case None
    then show ?thesis using CompleteOrder by (simp add: complete_order_missing)
  next
    case (Some od)
    with assms CompleteOrder have d: "distinct (map li_id (order_lines od))" by simp
    show ?thesis
    proof (cases "\<forall>l\<in>set (order_lines od). stock_ok s l")
      case True
      from complete_order_success[OF Some True, of now]
      obtain s' where "fst (complete_order now s order_id) = s'"
        and h: "\<forall>i. history s' i = history s i @ map (order_entry now order_id) (lines_of i (order_lines od))"
        and v: "\<forall>i. inventory s' i = inventory_after s (order_lines od) i"
        by auto
      then show ?thesis using CompleteOrder
          ledger_in_step[OF d True h change_sum_order_entries v, of i] by simp
    next
      case False
      then show ?thesis using CompleteOrder complete_order_unchanged_unless_ok[OF Some False]
        by simp
    qed
  qed
next
  case (ProcessDirectSale items sale_id pay)
  with assms have d: "distinct (map li_id items)" by simp
  show ?thesis
  proof (cases "\<forall>l\<in>set items. stock_ok s l")
    case True
    from process_direct_sale_success[OF True, of now sale_id pay]
    obtain s' where "fst (process_direct_sale now s items sale_id pay) = s'"
      and h: "\<forall>i. history s' i = history s i @ map (sale_entry now sale_id) (lines_of i items)"
      and v: "\<forall>i. inventory s' i = inventory_after s items i"
      by auto
    then show ?thesis using ProcessDirectSale
        ledger_in_step[OF d True h change_sum_sale_entries v, of i] by simp
  next
    case False
    from find_failing[OF False] obtain bad
      where "find (\<lambda>l. \<not> stock_ok s l) items = Some bad" by blast
    from process_direct_sale_failure[OF this, of now sale_id pay]
    show ?thesis using ProcessDirectSale by simp
  qed
qed

text \<open>
  C3, amended. Over every sequence of saves, completions and direct sales in which each
  save either carries no quantity or meets the quantity 0 (as the save that creates the
  item does), and in which no completion or sale names an item in two line items, the
  quantity changes of the history entries appended to an item sum to the item's quantity
  after the sequence minus its quantity before it (a null change counting 0). From the
  empty store, the history of an item sums to its quantity.
\<close>

theorem history_sum_in_step:
  assumes "all_in_step s ops"
  shows "change_sum (history (run_all s ops) i) - change_sum (history s i)
           = quantity_of (run_all s ops) i - quantity_of s i"
  using assms
proof (induction ops arbitrary: s)
  case Nil
  then show ?case by simp
next
  case (Cons timed ops)
  obtain now operation where timed: "timed = (now, operation)" by (cases timed)
  from Cons.prems timed have one: "in_step s operation"
    and rest: "all_in_step (perform now s operation) ops" by simp_all
  from Cons.IH[OF rest] perform_in_step[OF one, of now i] show ?case
    using timed by simp
qed

text \<open>
  Item A is created with 10, a direct sale takes 3, an order of 2 is completed: the
  history of A sums to the quantity 5.
\<close>

theorem history_sum_in_step_witness:
  "change_sum (history (run_all
      (empty_store\<lparr>orders := [''o1'' \<mapsto> order_of [line ''A'' 2] ''processing'']\<rparr>)
      [(1, SaveItem (stocked ''A'' 10) ''A'' True None),
       (2, ProcessDirectSale [line ''A'' 3] ''Venta-1'' None),
       (3, CompleteOrder ''o1'')]) ''A'')
     = quantity_of (run_all
      (empty_store\<lparr>orders := [''o1'' \<mapsto> order_of [line ''A'' 2] ''processing'']\<rparr>)
      [(1, SaveItem (stocked ''A'' 10) ''A'' True None),
       (2, ProcessDirectSale [line ''A'' 3] ''Venta-1'' None),
       (3, CompleteOrder ''o1'')]) ''A''
   \<and> quantity_of (run_all
      (empty_store\<lparr>orders := [''o1'' \<mapsto> order_of [line ''A'' 2] ''processing'']\<rparr>)
      [(1, SaveItem (stocked ''A'' 10) ''A'' True None),
       (2, ProcessDirectSale [line ''A'' 3] ''Venta-1'' None),
       (3, CompleteOrder ''o1'')]) ''A'' = 5"
proof -
  let ?s = "empty_store\<lparr>orders := [''o1'' \<mapsto> order_of [line ''A'' 2] ''processing'']\<rparr>"
  let ?ops = "[(1, SaveItem (stocked ''A'' 10) ''A'' True None),
       (2, ProcessDirectSale [line ''A'' 3] ''Venta-1'' None),
       (3, CompleteOrder ''o1'')]"
  have run: "quantity_of (run_all ?s ?ops) ''A'' = 5"
    by (simp add: save_inventory_item_eq save_item_body_def set_merge_def merge_field_def
          example_defs process_direct_sale_def process_direct_sale_atomic_def
          complete_order_def complete_order_atomic_def transactional_def Let_def)
  have ok: "all_in_step ?s ?ops"
    by (simp add: save_inventory_item_eq save_item_body_def set_merge_def merge_field_def
          example_defs process_direct_sale_def process_direct_sale_atomic_def
          complete_order_def complete_order_atomic_def transactional_def Let_def)
  from history_sum_in_step[OF ok, of "''A''"] run show ?thesis
    by (simp add: example_defs change_sum_def)
qed

end
